theory Spec2Isabelle
  imports Main "HOL-Library.AList"
begin

section \<open>JavaScript values\<close>

text \<open>
  The bridge moves untyped JavaScript values (\<open>any\<close>) across its boundary. The values the
  bridge code inspects are modelled by \<open>jsval\<close>: the JSON values, byte buffers
  (\<open>Uint8Array\<close>/\<open>Buffer\<close>), a function object that returns a fixed value when called with
  no argument (the \<open>toJSON\<close> hooks and \<open>getMediaPlayerId\<close>), and the wrapper object built by
  \<open>new MusicCollectionInternal(result)\<close>, whose class lives outside the bridge file.

  Limits of the value model, none of which a statement below depends on: numbers are
  integers (no \<open>NaN\<close>, no fractions); a named property written onto an array, a typed
  array, a function or the wrapper object is not stored; the built-in properties of
  primitives and arrays (\<open>length\<close>, the \<open>buffer\<close> of a typed array) read as \<open>undefined\<close>.
\<close>

datatype jsval =
    JUndefined
  | JNull
  | JBool bool
  | JNum int
  | JStr string
  | JBuf "nat list"
  | JArr "jsval list"
  | JObj "(string \<times> jsval) list"
  | JFun jsval
  | JMusic jsval

datatype exn = TypeError | SyntaxError | RangeError | NativeError string

datatype 'a outcome = Returned 'a | Thrown exn

fun truthy :: "jsval \<Rightarrow> bool" where
  "truthy JUndefined = False"
| "truthy JNull = False"
| "truthy (JBool b) = b"
| "truthy (JNum n) = (n \<noteq> 0)"
| "truthy (JStr s) = (s \<noteq> [])"
| "truthy _ = True"

fun nullish :: "jsval \<Rightarrow> bool" where
  "nullish JUndefined = True"
| "nullish JNull = True"
| "nullish _ = False"

fun is_primitive :: "jsval \<Rightarrow> bool" where
  "is_primitive JUndefined = True"
| "is_primitive JNull = True"
| "is_primitive (JBool b) = True"
| "is_primitive (JNum n) = True"
| "is_primitive (JStr s) = True"
| "is_primitive _ = False"

text \<open>\<open>v.k\<close>: a \<open>TypeError\<close> on \<open>undefined\<close> and \<open>null\<close>, the own property of an object,
  \<open>undefined\<close> otherwise.\<close>

fun get_prop :: "jsval \<Rightarrow> string \<Rightarrow> exn + jsval" where
  "get_prop JUndefined k = Inl TypeError"
| "get_prop JNull k = Inl TypeError"
| "get_prop (JObj fs) k = Inr (case map_of fs k of None \<Rightarrow> JUndefined | Some v \<Rightarrow> v)"
| "get_prop _ k = Inr JUndefined"

text \<open>\<open>v.k = x\<close> in strict mode (the sources are ES modules): a \<open>TypeError\<close> on \<open>undefined\<close>,
  \<open>null\<close> and on every primitive; on an object the property is overwritten in place or
  appended.\<close>

fun set_prop :: "jsval \<Rightarrow> string \<Rightarrow> jsval \<Rightarrow> exn + jsval" where
  "set_prop JUndefined k x = Inl TypeError"
| "set_prop JNull k x = Inl TypeError"
| "set_prop (JBool b) k x = Inl TypeError"
| "set_prop (JNum n) k x = Inl TypeError"
| "set_prop (JStr s) k x = Inl TypeError"
| "set_prop (JObj fs) k x = Inr (JObj (AList.update k x fs))"
| "set_prop v k x = Inr v"

fun set_props :: "jsval \<Rightarrow> (string \<times> jsval) list \<Rightarrow> exn + jsval" where
  "set_props v [] = Inr v"
| "set_props v ((k, x) # kxs) =
     (case set_prop v k x of Inl e \<Rightarrow> Inl e | Inr v' \<Rightarrow> set_props v' kxs)"

text \<open>\<open>'k' in v\<close>: a \<open>TypeError\<close> unless \<open>v\<close> is an object.\<close>

fun has_prop :: "string \<Rightarrow> jsval \<Rightarrow> exn + bool" where
  "has_prop k (JObj fs) = Inr (map_of fs k \<noteq> None)"
| "has_prop k (JArr xs) = Inr False"
| "has_prop k (JBuf bs) = Inr False"
| "has_prop k (JFun r) = Inr False"
| "has_prop k (JMusic r) = Inr False"
| "has_prop k _ = Inl TypeError"

text \<open>\<open>if (data.k) { data.k.k1 = x1; ...; data.kn = xn }\<close>: the nested object is mutated
  in place, so the payload sees the new fields.\<close>

definition assign_nested :: "jsval \<Rightarrow> string \<Rightarrow> (string \<times> jsval) list \<Rightarrow> exn + jsval" where
  "assign_nested data k kxs =
     (case get_prop data k of
        Inl e \<Rightarrow> Inl e
      | Inr inner \<Rightarrow>
          if truthy inner
          then (case set_props inner kxs of
                  Inl e \<Rightarrow> Inl e
                | Inr inner' \<Rightarrow> set_prop data k inner')
          else Inr data)"

text \<open>\<open>buffers[i]\<close> on the raw buffer list of an event: \<open>undefined\<close> out of range.\<close>

definition buf_at :: "nat list list \<Rightarrow> nat \<Rightarrow> jsval" where
  "buf_at buffers i = (if i < length buffers then JBuf (buffers ! i) else JUndefined)"

fun startsWith :: "string \<Rightarrow> string \<Rightarrow> bool" where
  "startsWith s [] = True"
| "startsWith [] (c # p) = False"
| "startsWith (x # s) (c # p) = (x = c \<and> startsWith s p)"

definition endsWith :: "string \<Rightarrow> string \<Rightarrow> bool" where
  "endsWith s p = startsWith (rev s) (rev p)"

section \<open>Registries, listener bus and debug flags\<close>

text \<open>
  Observers and listener functions are objects compared by identity (\<open>===\<close>); the model
  names each object by a number. \<open>next_id\<close> is the supply of fresh identities for the
  objects and closures the bridge creates itself (\<open>{}\<close>, the derived callbacks).
\<close>

type_synonym observer = nat
type_synonym listener = nat

text \<open>A function subscribed on \<open>DeviceEventEmitter\<close>: the closure \<open>callback\<close> built by
  \<open>RtcEngineExInternal.addListener\<close> (its identity, and the \<open>eventType\<close> and \<open>listener\<close> it
  captured), or any other function object.\<close>

datatype busfn = Derived nat string listener | Raw listener

text \<open>
  The state: the two logging flags of \<open>AgoraEnv\<close>; the static registries of
  \<open>RtcEngineExInternal\<close> under their own names, without the leading underscore; the
  static registries of \<open>MediaEngineInternal\<close>, \<open>MediaPlayerInternal\<close>, \<open>MediaRecorderInternal\<close>
  and \<open>MusicContentCenterInternal\<close> that the family table reads, under the class name
  (arrays, and \<open>Map\<close>s keyed by player id or native handle); the subscriptions of
  \<open>DeviceEventEmitter\<close> in registration order; the \<open>agoraCallback\<close> property that
  \<open>addListener\<close> writes onto listener functions; and the families (named by their
  prefix) whose entry in the exported table \<open>EVENT_PROCESSORS\<close> has had its \<open>preprocess\<close>
  set to \<open>undefined\<close>, the one assignment the bridge ever makes to a descriptor.
\<close>

record engine_state =
  enableLogging :: bool
  enableDebugLogging :: bool
  event_handlers :: "observer list"
  direct_cdn_streaming_event_handler :: "observer list"
  metadata_observer :: "observer list"
  audio_encoded_frame_observers :: "observer list"
  audio_spectrum_observers :: "observer list"
  media_engine_audio_frame_observers :: "observer list"
  media_engine_video_frame_observers :: "observer list"
  media_engine_video_encoded_frame_observers :: "observer list"
  media_player_source_observers :: "(jsval \<times> observer list) list"
  media_player_audio_frame_observers :: "(jsval \<times> observer list) list"
  media_player_video_frame_observers :: "(jsval \<times> observer list) list"
  media_player_audio_spectrum_observers :: "(jsval \<times> observer list) list"
  media_recorder_observers :: "(jsval \<times> observer) list"
  music_content_center_event_handlers :: "observer list"
  bus :: "(string \<times> busfn) list"
  agoraCallback :: "(listener \<times> busfn) list"
  next_id :: nat
  preprocess_cleared :: "string list"

definition isDebuggable :: "engine_state \<Rightarrow> bool" where
  "isDebuggable st = (enableLogging st \<and> enableDebugLogging st)"

text \<open>\<open>Map.get(key)\<close>: keys are compared by value when primitive; a parsed payload never
  holds the very object that was used as a key.\<close>

definition map_get :: "(jsval \<times> 'a) list \<Rightarrow> jsval \<Rightarrow> 'a option" where
  "map_get m k = (if is_primitive k then map_of m k else None)"

section \<open>Effects\<close>

datatype EVENT_TYPE = IMediaEngine | IMediaPlayer | IMediaRecorder | IRtcEngine | IMusicContentCenter

text \<open>The generated apply functions of the families are external; a call of one of them
  is an effect of the bridge. The external functions the bridge calls (the apply
  functions, the functions other modules subscribe on the bus, the log functions and the
  environment setup and teardown of the endpoint) are taken to return normally and to
  leave the registries and the bus as they are; what the codec and \<open>CallApi\<close> do,
  including throwing, is a parameter below.\<close>

datatype process_fn =
    processIAudioFrameObserver
  | processIAudioFrameObserverBase
  | processIVideoFrameObserver
  | processIAudioSpectrumObserver
  | processIAudioEncodedFrameObserver
  | processIVideoEncodedFrameObserver
  | processIMediaPlayerSourceObserver
  | processIAudioPcmFrameSink
  | processIMediaPlayerVideoFrameObserver
  | processIMediaRecorderObserver
  | processIMetadataObserver
  | processIDirectCdnStreamingEventHandler
  | processIRtcEngineEventHandler
  | processIMusicContentCenterEventHandler

text \<open>What an apply function is called on: a registered observer, or the one-field object
  \<open>{ [eventType]: listener }\<close> a derived callback wraps its listener in.\<close>

datatype target = Observer observer | ListenerObject string listener

datatype level = Info | Debug | Warn | Error

datatype log_tail = Ret string | Code int | Exn exn

datatype effect =
    LogOnEvent string string "nat list list"
  | LogCallApi level string jsval log_tail
  | Preprocess string string jsval "nat list list"
  | Apply process_fn target string jsval
  | Emit string string jsval
  | Invoke listener string jsval
  | CallApiCalled string jsval "jsval list" nat
  | InitializeEnv
  | ReleaseEnv
  | ConsoleError string
  | ConsoleErrorExn exn
  | Super string

section \<open>The event families\<close>

record EventProcessor =
  suffix :: string
  type :: "jsval \<Rightarrow> exn + EVENT_TYPE"
  func :: "process_fn list"
  preprocess :: "(string \<Rightarrow> jsval \<Rightarrow> nat list list \<Rightarrow> exn + jsval) option"
  handlers :: "engine_state \<Rightarrow> string \<Rightarrow> jsval \<Rightarrow> exn + observer option list option"

definition frame_fields :: "nat list list \<Rightarrow> (string \<times> jsval) list" where
  "frame_fields buffers =
     [(''yBuffer'', buf_at buffers 0), (''uBuffer'', buf_at buffers 1),
      (''vBuffer'', buf_at buffers 2), (''metadata_buffer'', buf_at buffers 3),
      (''alphaBuffer'', buf_at buffers 4)]"

definition IAudioFrameObserver :: EventProcessor where
  "IAudioFrameObserver = \<lparr>
     suffix = ''AudioFrameObserver_'',
     type = (\<lambda>data. Inr IMediaEngine),
     func = [processIAudioFrameObserver, processIAudioFrameObserverBase],
     preprocess = Some (\<lambda>event data buffers.
       assign_nested data ''audioFrame'' [(''buffer'', buf_at buffers 0)]),
     handlers = (\<lambda>st event data. Inr (Some (map Some (media_engine_audio_frame_observers st)))) \<rparr>"

definition IVideoFrameObserver :: EventProcessor where
  "IVideoFrameObserver = \<lparr>
     suffix = ''VideoFrameObserver_'',
     type = (\<lambda>data. Inr IMediaEngine),
     func = [processIVideoFrameObserver],
     preprocess = Some (\<lambda>event data buffers.
       assign_nested data ''videoFrame'' (frame_fields buffers)),
     handlers = (\<lambda>st event data. Inr (Some (map Some (media_engine_video_frame_observers st)))) \<rparr>"

definition IAudioSpectrumObserver :: EventProcessor where
  "IAudioSpectrumObserver = \<lparr>
     suffix = ''AudioSpectrumObserver_'',
     type = (\<lambda>data. case get_prop data ''playerId'' of
                       Inl e \<Rightarrow> Inl e
                     | Inr v \<Rightarrow> Inr (if v = JNum 0 then IRtcEngine else IMediaPlayer)),
     func = [processIAudioSpectrumObserver],
     preprocess = None,
     handlers = (\<lambda>st event data. case get_prop data ''playerId'' of
                       Inl e \<Rightarrow> Inl e
                     | Inr v \<Rightarrow> Inr (if v = JNum 0
                                then Some (map Some (audio_spectrum_observers st))
                                else map_option (map Some)
                                       (map_get (media_player_audio_spectrum_observers st) v))) \<rparr>"

definition IAudioEncodedFrameObserver :: EventProcessor where
  "IAudioEncodedFrameObserver = \<lparr>
     suffix = ''AudioEncodedFrameObserver_'',
     type = (\<lambda>data. Inr IRtcEngine),
     func = [processIAudioEncodedFrameObserver],
     preprocess = Some (\<lambda>event data buffers.
       if event = ''OnRecordAudioEncodedFrame'' \<or> event = ''OnPlaybackAudioEncodedFrame''
          \<or> event = ''OnMixedAudioEncodedFrame''
       then set_prop data ''frameBuffer'' (buf_at buffers 0)
       else Inr data),
     handlers = (\<lambda>st event data. Inr (Some (map Some (audio_encoded_frame_observers st)))) \<rparr>"

definition IVideoEncodedFrameObserver :: EventProcessor where
  "IVideoEncodedFrameObserver = \<lparr>
     suffix = ''VideoEncodedFrameObserver_'',
     type = (\<lambda>data. Inr IMediaEngine),
     func = [processIVideoEncodedFrameObserver],
     preprocess = Some (\<lambda>event data buffers.
       if event = ''onEncodedVideoFrameReceived''
       then set_prop data ''imageBuffer'' (buf_at buffers 0)
       else Inr data),
     handlers = (\<lambda>st event data.
       Inr (Some (map Some (media_engine_video_encoded_frame_observers st)))) \<rparr>"

definition IMediaPlayerSourceObserver :: EventProcessor where
  "IMediaPlayerSourceObserver = \<lparr>
     suffix = ''MediaPlayerSourceObserver_'',
     type = (\<lambda>data. Inr IMediaPlayer),
     func = [processIMediaPlayerSourceObserver],
     preprocess = None,
     handlers = (\<lambda>st event data. case get_prop data ''playerId'' of
                       Inl e \<Rightarrow> Inl e
                     | Inr v \<Rightarrow> Inr (map_option (map Some)
                                       (map_get (media_player_source_observers st) v))) \<rparr>"

text \<open>\<open>Array.from(buffers[0] ?? [])\<close>: the bytes of the first buffer as an array of numbers.\<close>

definition array_from_buf :: "nat list list \<Rightarrow> jsval" where
  "array_from_buf buffers =
     (if 0 < length buffers then JArr (map (\<lambda>b. JNum (int b)) (buffers ! 0)) else JArr [])"

definition IAudioPcmFrameSink :: EventProcessor where
  "IAudioPcmFrameSink = \<lparr>
     suffix = ''AudioPcmFrameSink_'',
     type = (\<lambda>data. Inr IMediaPlayer),
     func = [processIAudioPcmFrameSink],
     preprocess = Some (\<lambda>event data buffers.
       assign_nested data ''frame'' [(''data_'', array_from_buf buffers)]),
     handlers = (\<lambda>st event data. case get_prop data ''playerId'' of
                       Inl e \<Rightarrow> Inl e
                     | Inr v \<Rightarrow> Inr (map_option (map Some)
                                       (map_get (media_player_audio_frame_observers st) v))) \<rparr>"

definition IMediaPlayerVideoFrameObserver :: EventProcessor where
  "IMediaPlayerVideoFrameObserver = \<lparr>
     suffix = ''MediaPlayerVideoFrameObserver_'',
     type = (\<lambda>data. Inr IMediaPlayer),
     func = [processIMediaPlayerVideoFrameObserver],
     preprocess = Some (\<lambda>event data buffers.
       assign_nested data ''frame'' (frame_fields buffers)),
     handlers = (\<lambda>st event data. case get_prop data ''playerId'' of
                       Inl e \<Rightarrow> Inl e
                     | Inr v \<Rightarrow> Inr (map_option (map Some)
                                       (map_get (media_player_video_frame_observers st) v))) \<rparr>"

definition IMediaRecorderObserver :: EventProcessor where
  "IMediaRecorderObserver = \<lparr>
     suffix = ''MediaRecorderObserver_'',
     type = (\<lambda>data. Inr IMediaRecorder),
     func = [processIMediaRecorderObserver],
     preprocess = None,
     handlers = (\<lambda>st event data. case get_prop data ''nativeHandle'' of
                       Inl e \<Rightarrow> Inl e
                     | Inr v \<Rightarrow> Inr (Some [map_get (media_recorder_observers st) v])) \<rparr>"

definition IMetadataObserver :: EventProcessor where
  "IMetadataObserver = \<lparr>
     suffix = ''MetadataObserver_'',
     type = (\<lambda>data. Inr IRtcEngine),
     func = [processIMetadataObserver],
     preprocess = Some (\<lambda>event data buffers.
       if event = ''onMetadataReceived''
       then assign_nested data ''metadata'' [(''buffer'', buf_at buffers 0)]
       else Inr data),
     handlers = (\<lambda>st event data. Inr (Some (map Some (metadata_observer st)))) \<rparr>"

definition IDirectCdnStreamingEventHandler :: EventProcessor where
  "IDirectCdnStreamingEventHandler = \<lparr>
     suffix = ''DirectCdnStreamingEventHandler_'',
     type = (\<lambda>data. Inr IRtcEngine),
     func = [processIDirectCdnStreamingEventHandler],
     preprocess = None,
     handlers = (\<lambda>st event data.
       Inr (Some (map Some (direct_cdn_streaming_event_handler st)))) \<rparr>"

definition IRtcEngineEventHandler :: EventProcessor where
  "IRtcEngineEventHandler = \<lparr>
     suffix = ''RtcEngineEventHandler_'',
     type = (\<lambda>data. Inr IRtcEngine),
     func = [processIRtcEngineEventHandler],
     preprocess = Some (\<lambda>event data buffers.
       if event = ''onStreamMessage'' \<or> event = ''onStreamMessageEx''
       then set_prop data ''data'' (buf_at buffers 0)
       else Inr data),
     handlers = (\<lambda>st event data.
       if event = ''onLocalVideoStats''
       then (case has_prop ''connection'' data of
               Inl e \<Rightarrow> Inl e
             | Inr c \<Rightarrow> if c then Inr None else Inr (Some (map Some (event_handlers st))))
       else Inr (Some (map Some (event_handlers st)))) \<rparr>"

definition IMusicContentCenterEventHandler :: EventProcessor where
  "IMusicContentCenterEventHandler = \<lparr>
     suffix = ''MusicContentCenterEventHandler_'',
     type = (\<lambda>data. Inr IMusicContentCenter),
     func = [processIMusicContentCenterEventHandler],
     preprocess = Some (\<lambda>event data buffers.
       if event = ''onMusicCollectionResult''
       then (case get_prop data ''result'' of
               Inl e \<Rightarrow> Inl e
             | Inr result \<Rightarrow> set_prop data ''result'' (JMusic result))
       else Inr data),
     handlers = (\<lambda>st event data.
       Inr (Some (map Some (music_content_center_event_handlers st)))) \<rparr>"

text \<open>The object literal that initializes \<open>EVENT_PROCESSORS\<close>, in the order of its
  properties.\<close>

definition EVENT_PROCESSORS_literal :: "EventProcessor list" where
  "EVENT_PROCESSORS_literal =
     [IAudioFrameObserver, IVideoFrameObserver, IAudioSpectrumObserver,
      IAudioEncodedFrameObserver, IVideoEncodedFrameObserver, IMediaPlayerSourceObserver,
      IAudioPcmFrameSink, IMediaPlayerVideoFrameObserver, IMediaRecorderObserver,
      IMetadataObserver, IDirectCdnStreamingEventHandler, IRtcEngineEventHandler,
      IMusicContentCenterEventHandler]"

text \<open>\<open>EVENT_PROCESSORS\<close> is a mutable exported object. A table entry as it stands in a
  state: the descriptor of the literal, without its \<open>preprocess\<close> once that was set to
  \<open>undefined\<close> on the entry. \<open>EVENT_PROCESSORS st\<close> is \<open>Object.values(EVENT_PROCESSORS)\<close> in that
  state.\<close>

definition entry :: "engine_state \<Rightarrow> EventProcessor \<Rightarrow> EventProcessor" where
  "entry st family =
     (if suffix family \<in> set (preprocess_cleared st) then family\<lparr>preprocess := None\<rparr>
      else family)"

definition EVENT_PROCESSORS :: "engine_state \<Rightarrow> EventProcessor list" where
  "EVENT_PROCESSORS st = map (entry st) EVENT_PROCESSORS_literal"

section \<open>External collaborators\<close>

text \<open>
  The JSON codec (\<open>json-bigint\<close>) and the native endpoint \<open>AgoraElectronBridge.CallApi\<close> are
  not part of the bridge; they are parameters. \<open>Inl\<close> is a thrown exception.
  \<open>JSON_stringify\<close> yields a string, or \<open>undefined\<close> for \<open>undefined\<close>. \<open>CallApi\<close> answers
  with \<open>callApiReturnCode\<close> and \<open>callApiResult\<close> (\<open>None\<close>: \<open>undefined\<close> or \<open>null\<close>).
\<close>

record env =
  JSON_parse :: "string \<Rightarrow> exn + jsval"
  JSON_stringify :: "jsval \<Rightarrow> exn + jsval"
  CallApi :: "string \<Rightarrow> jsval \<Rightarrow> jsval list \<Rightarrow> nat \<Rightarrow> exn + (int \<times> string option)"

section \<open>The listener bus\<close>

text \<open>
  Modelled from the spec: the publish/subscribe bus \<open>DeviceEventEmitter\<close> is an
  \<open>eventemitter3\<close> instance, a library outside the repository. Its subscriptions are kept
  in registration order; \<open>emit\<close> calls the subscribers of the event name in that order and
  catches nothing; \<open>removeListener\<close> with no function removes all subscriptions of the
  name, with a function those holding that very function; \<open>removeAllListeners\<close> clears one
  name, or everything.
\<close>

definition listeners :: "engine_state \<Rightarrow> string \<Rightarrow> busfn list" where
  "listeners st eventType = map snd (filter (\<lambda>s. fst s = eventType) (bus st))"

definition listenerCount :: "engine_state \<Rightarrow> string \<Rightarrow> nat" where
  "listenerCount st eventType = length (listeners st eventType)"

definition bus_addListener :: "string \<Rightarrow> busfn \<Rightarrow> engine_state \<Rightarrow> engine_state" where
  "bus_addListener eventType fn st = st\<lparr>bus := bus st @ [(eventType, fn)]\<rparr>"

definition bus_removeListener :: "string \<Rightarrow> busfn option \<Rightarrow> engine_state \<Rightarrow> engine_state" where
  "bus_removeListener eventType fn st =
     (case fn of
        None \<Rightarrow> st\<lparr>bus := filter (\<lambda>s. fst s \<noteq> eventType) (bus st)\<rparr>
      | Some f \<Rightarrow> st\<lparr>bus := filter (\<lambda>s. \<not> (fst s = eventType \<and> snd s = f)) (bus st)\<rparr>)"

definition bus_removeAllListeners :: "string option \<Rightarrow> engine_state \<Rightarrow> engine_state" where
  "bus_removeAllListeners eventType st =
     (case eventType of
        None \<Rightarrow> st\<lparr>bus := []\<rparr>
      | Some e \<Rightarrow> st\<lparr>bus := filter (\<lambda>s. fst s \<noteq> e) (bus st)\<rparr>)"

definition prepend :: "effect list \<Rightarrow> 'a outcome \<times> effect list \<Rightarrow> 'a outcome \<times> effect list" where
  "prepend tr r = (fst r, tr @ snd r)"

text \<open>One subscriber called by \<open>emit\<close> with \<open>(eventProcessor, data)\<close>. A derived callback is
  the closure of \<open>addListener\<close>: it returns unless the family kind is \<open>IRtcEngine\<close>, and else
  runs every apply function on \<open>{ [eventType]: listener }\<close>. Any other function is
  external.\<close>

fun invoke_callback :: "busfn \<Rightarrow> EventProcessor \<Rightarrow> jsval \<Rightarrow> unit outcome \<times> effect list" where
  "invoke_callback (Derived i eventType listener) eventProcessor data =
     (case type eventProcessor data of
        Inl e \<Rightarrow> (Thrown e, [])
      | Inr t \<Rightarrow>
          if t \<noteq> IRtcEngine then (Returned (), [])
          else (Returned (),
                map (\<lambda>it. Apply it (ListenerObject eventType listener) eventType data)
                    (func eventProcessor)))"
| "invoke_callback (Raw f) eventProcessor data =
     (Returned (), [Invoke f (suffix eventProcessor) data])"

fun emit_listeners :: "busfn list \<Rightarrow> EventProcessor \<Rightarrow> jsval \<Rightarrow> unit outcome \<times> effect list" where
  "emit_listeners [] eventProcessor data = (Returned (), [])"
| "emit_listeners (cb # cbs) eventProcessor data =
     (case invoke_callback cb eventProcessor data of
        (Thrown e, tr) \<Rightarrow> (Thrown e, tr)
      | (Returned u, tr) \<Rightarrow> prepend tr (emit_listeners cbs eventProcessor data))"

definition emit :: "engine_state \<Rightarrow> string \<Rightarrow> EventProcessor \<Rightarrow> jsval \<Rightarrow> unit outcome \<times> effect list" where
  "emit st eventType eventProcessor data =
     prepend [Emit eventType (suffix eventProcessor) data]
       (emit_listeners (listeners st eventType) eventProcessor data)"

section \<open>Inbound events\<close>

text \<open>\<open>emitEvent\<close>: nothing without a subscriber; else the preprocess function, if the
  descriptor still carries one, runs and \<open>preprocess\<close> is set to \<open>undefined\<close> on the
  descriptor object that was passed, and the event is emitted with the descriptor and the
  payload. The second component of the result is that descriptor object after the call:
  the caller's object is mutated, whether it is a copy or an entry of the table.\<close>

definition emitEvent ::
  "engine_state \<Rightarrow> string \<Rightarrow> EventProcessor \<Rightarrow> jsval \<Rightarrow> nat list list option
     \<Rightarrow> (unit outcome \<times> effect list) \<times> EventProcessor" where
  "emitEvent st eventType eventProcessor data buffers =
     (if listenerCount st eventType = 0 then ((Returned (), []), eventProcessor)
      else case preprocess eventProcessor of
             None \<Rightarrow> (emit st eventType eventProcessor data, eventProcessor)
           | Some pre \<Rightarrow>
               (let bs = (case buffers of None \<Rightarrow> [] | Some b \<Rightarrow> b) in
                case pre eventType data bs of
                  Inl e \<Rightarrow>
                    ((Thrown e, [Preprocess (suffix eventProcessor) eventType data bs]),
                     eventProcessor)
                | Inr data' \<Rightarrow>
                    (prepend [Preprocess (suffix eventProcessor) eventType data bs]
                       (emit st eventType (eventProcessor\<lparr>preprocess := None\<rparr>) data'),
                     eventProcessor\<lparr>preprocess := None\<rparr>)))"


definition find_processor :: "engine_state \<Rightarrow> string \<Rightarrow> EventProcessor option" where
  "find_processor st event = find (\<lambda>it. startsWith event (suffix it)) (EVENT_PROCESSORS st)"

text \<open>The family prefix is removed at the start of the name, then one trailing \<open>Ex\<close>.\<close>

definition normalize_event :: "EventProcessor \<Rightarrow> string \<Rightarrow> string" where
  "normalize_event processor event =
     (let e = (if startsWith event (suffix processor)
               then drop (length (suffix processor)) event else event)
      in if endsWith e ''Ex'' then take (length e - 2) e else e)"

text \<open>\<open>try { _data = JSON.parse(data) ?? {} } catch (e) { _data = {} }\<close>\<close>

definition parse_payload :: "env \<Rightarrow> string \<Rightarrow> jsval" where
  "parse_payload env data =
     (case JSON_parse env data of
        Inl e \<Rightarrow> JObj []
      | Inr v \<Rightarrow> if nullish v then JObj [] else v)"

text \<open>The apply loop: every defined target, in order, gets every apply function of the
  family, in order.\<close>

definition apply_handlers :: "EventProcessor \<Rightarrow> observer option list \<Rightarrow> string \<Rightarrow> jsval \<Rightarrow> effect list" where
  "apply_handlers processor hs event data =
     concat (map (\<lambda>value. case value of
                             None \<Rightarrow> []
                           | Some v \<Rightarrow> map (\<lambda>it. Apply it (Observer v) event data) (func processor))
                 hs)"

text \<open>The part of \<open>handleEvent\<close> after the payload is parsed: target resolution, the
  preprocess step and the apply loop when targets were resolved, then the republish. The
  descriptor is the private copy \<open>{ ...processor }\<close>: what \<open>handleEvent\<close> and \<open>emitEvent\<close>
  assign to it dies with the call, and the table entry stays as it was.\<close>

definition dispatch ::
  "engine_state \<Rightarrow> EventProcessor \<Rightarrow> string \<Rightarrow> jsval \<Rightarrow> nat list list
     \<Rightarrow> unit outcome \<times> effect list" where
  "dispatch st processor event data buffers =
     (case handlers processor st event data of
        Inl e \<Rightarrow> (Thrown e, [])
      | Inr None \<Rightarrow> fst (emitEvent st event processor data (Some buffers))
      | Inr (Some hs) \<Rightarrow>
          (case preprocess processor of
             None \<Rightarrow>
               prepend (apply_handlers processor hs event data)
                 (fst (emitEvent st event processor data (Some buffers)))
           | Some pre \<Rightarrow>
               (case pre event data buffers of
                  Inl e \<Rightarrow> (Thrown e, [Preprocess (suffix processor) event data buffers])
                | Inr data' \<Rightarrow>
                    prepend (Preprocess (suffix processor) event data buffers
                             # apply_handlers processor hs event data')
                      (fst (emitEvent st event (processor\<lparr>preprocess := None\<rparr>) data'
                              (Some buffers))))))"

definition onEvent_log :: "engine_state \<Rightarrow> string \<Rightarrow> string \<Rightarrow> nat list list \<Rightarrow> effect list" where
  "onEvent_log st event data buffers =
     (if isDebuggable st then [LogOnEvent event data buffers] else [])"

definition handleEvent ::
  "env \<Rightarrow> engine_state \<Rightarrow> string \<Rightarrow> string \<Rightarrow> nat list list \<Rightarrow> unit outcome \<times> effect list" where
  "handleEvent env st event data buffers =
     (case find_processor st event of
        None \<Rightarrow> (Returned (), onEvent_log st event data buffers)
      | Some processor \<Rightarrow>
          prepend (onEvent_log st event data buffers)
            (dispatch st processor (normalize_event processor event)
               (parse_payload env data) buffers))"

text \<open>The callback registered with \<open>OnEvent('call_back_with_buffer', ...)\<close>: whatever
  \<open>handleEvent\<close> throws is caught and printed.\<close>

definition call_back_with_buffer ::
  "env \<Rightarrow> engine_state \<Rightarrow> string \<Rightarrow> string \<Rightarrow> nat list list \<Rightarrow> effect list" where
  "call_back_with_buffer env st event data buffers =
     (case handleEvent env st event data buffers of
        (Returned u, tr) \<Rightarrow> tr
      | (Thrown e, tr) \<Rightarrow> tr @ [ConsoleErrorExn e])"

section \<open>Outbound calls\<close>

text \<open>\<open>callIrisApi\<close> is called as \<open>callIrisApi.call(this, ...)\<close>; it reads the player id or
  the recorder handle of \<open>this\<close>.\<close>

datatype this_val = ThisUndefined | ThisMediaPlayer int | ThisMediaRecorder jsval | ThisOther

fun this_getMediaPlayerId :: "this_val \<Rightarrow> exn + jsval" where
  "this_getMediaPlayerId (ThisMediaPlayer n) = Inr (JNum n)"
| "this_getMediaPlayerId _ = Inl TypeError"

fun this_nativeHandle :: "this_val \<Rightarrow> exn + jsval" where
  "this_nativeHandle ThisUndefined = Inl TypeError"
| "this_nativeHandle (ThisMediaRecorder h) = Inr h"
| "this_nativeHandle _ = Inr JUndefined"

text \<open>\<open>f()\<close>: a \<open>TypeError\<close> unless \<open>f\<close> is a function.\<close>

fun call_fn :: "jsval \<Rightarrow> exn + jsval" where
  "call_fn (JFun r) = Inr r"
| "call_fn _ = Inl TypeError"

text \<open>\<open>f?.call()\<close>\<close>

definition optional_call :: "jsval \<Rightarrow> exn + jsval" where
  "optional_call f =
     (if nullish f then Inr JUndefined
      else case f of
             JFun r \<Rightarrow> Inr r
           | _ \<Rightarrow> (case get_prop f ''call'' of Inl e \<Rightarrow> Inl e | Inr c \<Rightarrow> call_fn c))"

function show_nat :: "nat \<Rightarrow> string" where
  "show_nat n =
     (if n < 10 then [''0123456789'' ! n]
      else show_nat (n div 10) @ [''0123456789'' ! (n mod 10)])"
  by pat_completeness auto
termination
  by (relation "measure id") auto

definition indexed :: "jsval list \<Rightarrow> (string \<times> jsval) list" where
  "indexed xs = map (\<lambda>i. (show_nat i, xs ! i)) [0..<length xs]"

text \<open>The own enumerable properties copied by \<open>{ ...v }\<close>.\<close>

fun own_entries :: "jsval \<Rightarrow> (string \<times> jsval) list" where
  "own_entries (JObj fs) = AList.clearjunk fs"
| "own_entries (JArr xs) = indexed xs"
| "own_entries (JStr s) = indexed (map (\<lambda>c. JStr [c]) s)"
| "own_entries (JBuf bs) = indexed (map (\<lambda>b. JNum (int b)) bs)"
| "own_entries _ = []"

text \<open>The state of the \<open>try\<close> block when it reaches the generic call: the argument object
  as mutated so far and the buffer list; or it has returned from the \<open>release\<close> case; or
  it has thrown, with the argument object as the \<open>catch\<close> block will see it.\<close>

datatype marshalled =
    Proceed jsval "jsval list" "effect list"
  | Released "effect list"
  | Failed exn jsval "effect list"

definition get_prop2 :: "jsval \<Rightarrow> string \<Rightarrow> string \<Rightarrow> exn + jsval" where
  "get_prop2 v a b = (case get_prop v a of Inl e \<Rightarrow> Inl e | Inr w \<Rightarrow> get_prop w b)"

definition push_one :: "jsval \<Rightarrow> exn + jsval \<Rightarrow> marshalled" where
  "push_one params r = (case r of Inl e \<Rightarrow> Failed e params [] | Inr b \<Rightarrow> Proceed params [b] [])"

text \<open>\<open>params.k = id; const json = params.toJSON?.call();
  params.toJSON = function () { return { ...json, key: params.k } }\<close>\<close>

definition inject_identity :: "jsval \<Rightarrow> string \<Rightarrow> string \<Rightarrow> exn + jsval \<Rightarrow> marshalled" where
  "inject_identity params k key ident =
     (case ident of
        Inl e \<Rightarrow> Failed e params []
      | Inr v \<Rightarrow>
          (case set_prop params k v of
             Inl e \<Rightarrow> Failed e params []
           | Inr params1 \<Rightarrow>
               (case (case get_prop params1 ''toJSON'' of
                        Inl e \<Rightarrow> Inl e
                      | Inr f \<Rightarrow> optional_call f) of
                  Inl e \<Rightarrow> Failed e params1 []
                | Inr json \<Rightarrow>
                    (case set_prop params1 ''toJSON''
                            (JFun (JObj (AList.update key v (own_entries json)))) of
                       Inl e \<Rightarrow> Failed e params1 []
                     | Inr params2 \<Rightarrow> Proceed params2 [] []))))"

text \<open>\<open>params.k = id; params.toJSON = function () { return { key: params.k } }\<close>\<close>

definition replace_by_identity :: "jsval \<Rightarrow> string \<Rightarrow> string \<Rightarrow> exn + jsval \<Rightarrow> marshalled" where
  "replace_by_identity params k key ident =
     (case ident of
        Inl e \<Rightarrow> Failed e params []
      | Inr v \<Rightarrow>
          (case set_prop params k v of
             Inl e \<Rightarrow> Failed e params []
           | Inr params1 \<Rightarrow>
               (case set_prop params1 ''toJSON'' (JFun (JObj [(key, v)])) of
                  Inl e \<Rightarrow> Failed e params1 []
                | Inr params2 \<Rightarrow> Proceed params2 [] [])))"

text \<open>The first half of the \<open>try\<close> block: the buffer extraction rule of the method name,
  the identity injection for player and recorder calls, and the two special engine
  calls.\<close>

definition marshal :: "env \<Rightarrow> this_val \<Rightarrow> string \<Rightarrow> jsval \<Rightarrow> marshalled" where
  "marshal env this funcName params =
    (if startsWith funcName ''MediaEngine_'' then
       (if funcName = ''MediaEngine_pushAudioFrame''
           \<or> funcName = ''MediaEngine_pushCaptureAudioFrame''
           \<or> funcName = ''MediaEngine_pushReverseAudioFrame''
           \<or> funcName = ''MediaEngine_pushDirectAudioFrame''
        then push_one params (get_prop2 params ''frame'' ''buffer'')
        else if funcName = ''MediaEngine_pushVideoFrame''
        then (case get_prop2 params ''frame'' ''buffer'' of
                Inl e \<Rightarrow> Failed e params []
              | Inr b \<Rightarrow>
                  (case get_prop2 params ''frame'' ''alphaBuffer'' of
                     Inl e \<Rightarrow> Failed e params []
                   | Inr a \<Rightarrow> Proceed params [b, JBuf [], JBuf [], a, JBuf []] []))
        else if funcName = ''MediaEngine_pushEncodedVideoImage''
        then push_one params (get_prop params ''imageBuffer'')
        else Proceed params [] [])
     else if startsWith funcName ''MediaPlayer_'' \<or> startsWith funcName ''MusicPlayer_'' then
       inject_identity params ''mediaPlayerId'' ''playerId'' (this_getMediaPlayerId this)
     else if startsWith funcName ''MediaRecorder_'' then
       inject_identity params ''nativeHandle'' ''nativeHandle'' (this_nativeHandle this)
     else if startsWith funcName ''RtcEngine_'' then
       (if funcName = ''RtcEngine_initialize'' then Proceed params [] [InitializeEnv]
        else if funcName = ''RtcEngine_release''
        then (case JSON_stringify env params of
                Inl e \<Rightarrow> Failed e params []
              | Inr json \<Rightarrow>
                  (case CallApi env funcName json [] 0 of
                     Inl e \<Rightarrow> Failed e params [CallApiCalled funcName json [] 0]
                   | Inr r \<Rightarrow> Released [CallApiCalled funcName json [] 0, ReleaseEnv]))
        else if funcName = ''RtcEngine_sendMetaData''
        then push_one params (get_prop2 params ''metadata'' ''buffer'')
        else if funcName = ''RtcEngine_sendStreamMessage''
                \<or> funcName = ''RtcEngine_sendStreamMessageEx''
        then push_one params (get_prop params ''data'')
        else if funcName = ''RtcEngine_destroyMediaPlayer''
        then replace_by_identity params ''mediaPlayerId'' ''playerId''
               (case get_prop2 params ''media_player'' ''getMediaPlayerId'' of
                  Inl e \<Rightarrow> Inl e
                | Inr g \<Rightarrow> call_fn g)
        else if funcName = ''RtcEngine_destroyMediaRecorder''
        then replace_by_identity params ''nativeHandle'' ''nativeHandle'' (this_nativeHandle this)
        else Proceed params [] [])
     else Proceed params [] [])"

fun negative_number :: "jsval \<Rightarrow> bool" where
  "negative_number (JNum n) = (n < 0)"
| "negative_number _ = False"

text \<open>A non-empty result text is parsed and returned; in debug mode it is logged, at
  error level when its \<open>result\<close> is a negative number.\<close>

definition decode_result ::
  "env \<Rightarrow> engine_state \<Rightarrow> string \<Rightarrow> jsval \<Rightarrow> string \<Rightarrow> jsval outcome \<times> effect list" where
  "decode_result env st funcName params ret =
     (case JSON_parse env ret of
        Inl e \<Rightarrow> (Thrown e, [])
      | Inr retObj \<Rightarrow>
          if isDebuggable st
          then (case get_prop retObj ''result'' of
                  Inl e \<Rightarrow> (Thrown e, [])
                | Inr r \<Rightarrow>
                    (case JSON_stringify env params of
                       Inl e \<Rightarrow> (Thrown e, [])
                     | Inr json \<Rightarrow>
                         (Returned retObj,
                          [LogCallApi (if negative_number r then Error else Debug)
                             funcName json (Ret ret)])))
          else (Returned retObj, []))"

text \<open>An empty or absent result text: the return code is logged and wrapped.\<close>

definition synthesize_result ::
  "env \<Rightarrow> engine_state \<Rightarrow> string \<Rightarrow> jsval \<Rightarrow> int \<Rightarrow> jsval outcome \<times> effect list" where
  "synthesize_result env st funcName params callApiReturnCode =
     (case JSON_stringify env params of
        Inl e \<Rightarrow> (Thrown e, [])
      | Inr json \<Rightarrow>
          (Returned (JObj [(''result'', JNum callApiReturnCode)]),
           [LogCallApi (if isDebuggable st then Error else Warn)
              funcName json (Code callApiReturnCode)]))"

text \<open>The second half of the \<open>try\<close> block: the generic call and the decoding of its
  answer.\<close>

definition invoke ::
  "env \<Rightarrow> engine_state \<Rightarrow> string \<Rightarrow> jsval \<Rightarrow> jsval list \<Rightarrow> jsval outcome \<times> effect list" where
  "invoke env st funcName params buffers =
     (case JSON_stringify env params of
        Inl e \<Rightarrow> (Thrown e, [])
      | Inr json \<Rightarrow>
          (case CallApi env funcName json buffers (length buffers) of
             Inl e \<Rightarrow> (Thrown e, [CallApiCalled funcName json buffers (length buffers)])
           | Inr (callApiReturnCode, callApiResult) \<Rightarrow>
               prepend [CallApiCalled funcName json buffers (length buffers)]
                 (case callApiResult of
                    None \<Rightarrow> synthesize_result env st funcName params callApiReturnCode
                  | Some ret \<Rightarrow>
                      if ret \<noteq> [] then decode_result env st funcName params ret
                      else synthesize_result env st funcName params callApiReturnCode)))"

text \<open>The \<open>catch\<close> block: its log call serializes the argument object again, before
  anything is logged; then \<open>{}\<close> is returned.\<close>

definition catch_block ::
  "env \<Rightarrow> engine_state \<Rightarrow> string \<Rightarrow> jsval \<Rightarrow> exn \<Rightarrow> jsval outcome \<times> effect list" where
  "catch_block env st funcName params e =
     (case JSON_stringify env params of
        Inl e' \<Rightarrow> (Thrown e', [])
      | Inr json \<Rightarrow>
          (Returned (JObj []),
           [LogCallApi (if isDebuggable st then Error else Warn) funcName json (Exn e)]))"

definition callIrisApi ::
  "env \<Rightarrow> engine_state \<Rightarrow> this_val \<Rightarrow> string \<Rightarrow> jsval \<Rightarrow> jsval outcome \<times> effect list" where
  "callIrisApi env st this funcName params =
     (case marshal env this funcName params of
        Failed e params' tr \<Rightarrow> prepend tr (catch_block env st funcName params' e)
      | Released tr \<Rightarrow> (Returned JUndefined, tr)
      | Proceed params' buffers tr \<Rightarrow>
          (case invoke env st funcName params' buffers of
             (Returned v, tr') \<Rightarrow> (Returned v, tr @ tr')
           | (Thrown e, tr') \<Rightarrow>
               prepend (tr @ tr') (catch_block env st funcName params' e)))"

text \<open>The buffer list handed to the boundary endpoint by a call, if the call gets
  there.\<close>

fun outbound_buffers :: "effect list \<Rightarrow> jsval list option" where
  "outbound_buffers [] = None"
| "outbound_buffers (CallApiCalled f j bs n # tr) = Some bs"
| "outbound_buffers (x # tr) = outbound_buffers tr"

section \<open>Observer registries and the listener facade\<close>

text \<open>\<open>if (!list.find((value) => value === o)) { list.push(o) }\<close>; an observer is an
  object, so a found entry is truthy.\<close>

definition push_if_absent :: "observer list \<Rightarrow> observer \<Rightarrow> observer list" where
  "push_if_absent xs ob = (if find (\<lambda>value. value = ob) xs = None then xs @ [ob] else xs)"

text \<open>Every registration ends in the \<open>super\<close> method, which forwards the call to the
  native engine and does not touch the registries.\<close>

definition registerEventHandler :: "engine_state \<Rightarrow> observer \<Rightarrow> engine_state \<times> effect list" where
  "registerEventHandler st eventHandler =
     (st\<lparr>event_handlers := push_if_absent (event_handlers st) eventHandler\<rparr>,
      [Super ''registerEventHandler''])"

definition unregisterEventHandler :: "engine_state \<Rightarrow> observer \<Rightarrow> engine_state \<times> effect list" where
  "unregisterEventHandler st eventHandler =
     (st\<lparr>event_handlers := filter (\<lambda>value. value \<noteq> eventHandler) (event_handlers st)\<rparr>,
      [Super ''unregisterEventHandler''])"

definition startDirectCdnStreaming :: "engine_state \<Rightarrow> observer \<Rightarrow> engine_state \<times> effect list" where
  "startDirectCdnStreaming st eventHandler =
     (st\<lparr>direct_cdn_streaming_event_handler :=
           push_if_absent (direct_cdn_streaming_event_handler st) eventHandler\<rparr>,
      [Super ''startDirectCdnStreaming''])"

definition registerMediaMetadataObserver :: "engine_state \<Rightarrow> observer \<Rightarrow> engine_state \<times> effect list" where
  "registerMediaMetadataObserver st ob =
     (st\<lparr>metadata_observer := push_if_absent (metadata_observer st) ob\<rparr>,
      [Super ''registerMediaMetadataObserver''])"

definition unregisterMediaMetadataObserver :: "engine_state \<Rightarrow> observer \<Rightarrow> engine_state \<times> effect list" where
  "unregisterMediaMetadataObserver st ob =
     (st\<lparr>metadata_observer := filter (\<lambda>value. value \<noteq> ob) (metadata_observer st)\<rparr>,
      [Super ''unregisterMediaMetadataObserver''])"

definition registerAudioEncodedFrameObserver :: "engine_state \<Rightarrow> observer \<Rightarrow> engine_state \<times> effect list" where
  "registerAudioEncodedFrameObserver st ob =
     (st\<lparr>audio_encoded_frame_observers := push_if_absent (audio_encoded_frame_observers st) ob\<rparr>,
      [Super ''registerAudioEncodedFrameObserver''])"

definition unregisterAudioEncodedFrameObserver :: "engine_state \<Rightarrow> observer \<Rightarrow> engine_state \<times> effect list" where
  "unregisterAudioEncodedFrameObserver st ob =
     (st\<lparr>audio_encoded_frame_observers :=
           filter (\<lambda>value. value \<noteq> ob) (audio_encoded_frame_observers st)\<rparr>,
      [Super ''unregisterAudioEncodedFrameObserver''])"

definition registerAudioSpectrumObserver :: "engine_state \<Rightarrow> observer \<Rightarrow> engine_state \<times> effect list" where
  "registerAudioSpectrumObserver st ob =
     (st\<lparr>audio_spectrum_observers := push_if_absent (audio_spectrum_observers st) ob\<rparr>,
      [Super ''registerAudioSpectrumObserver''])"

definition unregisterAudioSpectrumObserver :: "engine_state \<Rightarrow> observer \<Rightarrow> engine_state \<times> effect list" where
  "unregisterAudioSpectrumObserver st ob =
     (st\<lparr>audio_spectrum_observers :=
           filter (\<lambda>value. value \<noteq> ob) (audio_spectrum_observers st)\<rparr>,
      [Super ''unregisterAudioSpectrumObserver''])"

text \<open>
  The interface tables of \<open>ts-interface-checker\<close> are generated files outside the bridge;
  \<open>checkers.X?.strictTest({ [eventType]: undefined })\<close> is a parameter, one predicate on
  event names per interface.
\<close>

record checkers =
  test_IRtcEngineEventHandler :: "string \<Rightarrow> bool"
  test_IDirectCdnStreamingEventHandler :: "string \<Rightarrow> bool"
  test_IMetadataObserver :: "string \<Rightarrow> bool"
  test_IAudioEncodedFrameObserver :: "string \<Rightarrow> bool"
  test_IAudioSpectrumObserver :: "string \<Rightarrow> bool"

text \<open>A new object literal \<open>{}\<close>: the next fresh identity.\<close>

definition fresh_object :: "engine_state \<Rightarrow> nat \<times> engine_state" where
  "fresh_object st = (next_id st, st\<lparr>next_id := Suc (next_id st)\<rparr>)"

definition addListenerPreCheck ::
  "checkers \<Rightarrow> engine_state \<Rightarrow> string \<Rightarrow> bool \<times> engine_state \<times> effect list" where
  "addListenerPreCheck chk st eventType =
     (let (st1, tr1) =
            (if test_IRtcEngineEventHandler chk eventType \<and> event_handlers st = []
             then (case fresh_object st of (ob, st') \<Rightarrow> registerEventHandler st' ob)
             else (st, []))
      in if test_IDirectCdnStreamingEventHandler chk eventType
            \<and> direct_cdn_streaming_event_handler st1 = []
         then (False, st1, tr1 @ [ConsoleError
                 ''Please call `startDirectCdnStreaming` before you want to receive event by `addListener`''])
         else if test_IMetadataObserver chk eventType \<and> metadata_observer st1 = []
         then (False, st1, tr1 @ [ConsoleError
                 ''Please call `registerMediaMetadataObserver` before you want to receive event by `addListener`''])
         else if test_IAudioEncodedFrameObserver chk eventType
                 \<and> audio_encoded_frame_observers st1 = []
         then (False, st1, tr1 @ [ConsoleError
                 ''Please call `registerAudioEncodedFrameObserver` before you want to receive event by `addListener`''])
         else if test_IAudioSpectrumObserver chk eventType \<and> audio_spectrum_observers st1 = []
         then (case fresh_object st1 of
                 (ob, st') \<Rightarrow>
                   (case registerAudioSpectrumObserver st' ob of
                      (st2, tr2) \<Rightarrow> (True, st2, tr1 @ tr2)))
         else (True, st1, tr1))"

text \<open>\<open>addListener\<close> calls the pre-check as a statement, builds the derived callback,
  stores it on the listener as \<open>agoraCallback\<close> and subscribes it.\<close>

definition addListener ::
  "checkers \<Rightarrow> engine_state \<Rightarrow> string \<Rightarrow> listener \<Rightarrow> engine_state \<times> effect list" where
  "addListener chk st eventType listener =
     (case addListenerPreCheck chk st eventType of
        (ok, st1, tr) \<Rightarrow>
          (case fresh_object st1 of
             (i, st2) \<Rightarrow>
               (let callback = Derived i eventType listener;
                    st3 = st2\<lparr>agoraCallback := AList.update listener callback (agoraCallback st2)\<rparr>
                in (bus_addListener eventType callback st3, tr))))"

text \<open>\<open>DeviceEventEmitter.removeListener(eventType, listener?.agoraCallback ?? listener)\<close>\<close>

definition agoraCallback_or_self :: "engine_state \<Rightarrow> listener \<Rightarrow> busfn" where
  "agoraCallback_or_self st l = (case map_of (agoraCallback st) l of Some cb \<Rightarrow> cb | None \<Rightarrow> Raw l)"

definition removeListener :: "engine_state \<Rightarrow> string \<Rightarrow> listener option \<Rightarrow> engine_state" where
  "removeListener st eventType listener =
     bus_removeListener eventType
       (case listener of None \<Rightarrow> None | Some l \<Rightarrow> Some (agoraCallback_or_self st l))
       st"

definition removeAllListeners :: "engine_state \<Rightarrow> string option \<Rightarrow> engine_state" where
  "removeAllListeners st eventType = bus_removeAllListeners eventType st"

section \<open>Notions used in the statements\<close>


fun is_LogOnEvent :: "effect \<Rightarrow> bool" where
  "is_LogOnEvent (LogOnEvent e d b) = True"
| "is_LogOnEvent _ = False"

text \<open>A buffer slot that carries no bytes: a zero-length buffer, or \<open>undefined\<close> for a
  field that is absent.\<close>

fun empty_slot :: "jsval \<Rightarrow> bool" where
  "empty_slot (JBuf bs) = (bs = [])"
| "empty_slot JUndefined = True"
| "empty_slot _ = False"

fun is_observer_apply :: "effect \<Rightarrow> bool" where
  "is_observer_apply (Apply it (Observer ob) e d) = True"
| "is_observer_apply _ = False"

text \<open>The payload after the preprocess step of a descriptor, if it has one.\<close>

definition preprocessed :: "EventProcessor \<Rightarrow> string \<Rightarrow> jsval \<Rightarrow> nat list list \<Rightarrow> exn + jsval" where
  "preprocessed processor event data buffers =
     (case preprocess processor of None \<Rightarrow> Inr data | Some pre \<Rightarrow> pre event data buffers)"

definition preprocess_effect :: "EventProcessor \<Rightarrow> string \<Rightarrow> jsval \<Rightarrow> nat list list \<Rightarrow> effect list" where
  "preprocess_effect processor event data buffers =
     (case preprocess processor of
        None \<Rightarrow> []
      | Some pre \<Rightarrow> [Preprocess (suffix processor) event data buffers])"

text \<open>No observer is stored twice in a registry of the engine.\<close>

definition registries_distinct :: "engine_state \<Rightarrow> bool" where
  "registries_distinct st =
     (distinct (event_handlers st) \<and> distinct (direct_cdn_streaming_event_handler st)
      \<and> distinct (metadata_observer st) \<and> distinct (audio_encoded_frame_observers st)
      \<and> distinct (audio_spectrum_observers st))"

text \<open>The registries and the bus when the modules are loaded.\<close>

definition initial_state :: "bool \<Rightarrow> engine_state" where
  "initial_state flag = \<lparr>
     enableLogging = flag, enableDebugLogging = flag,
     event_handlers = [], direct_cdn_streaming_event_handler = [], metadata_observer = [],
     audio_encoded_frame_observers = [], audio_spectrum_observers = [],
     media_engine_audio_frame_observers = [], media_engine_video_frame_observers = [],
     media_engine_video_encoded_frame_observers = [],
     media_player_source_observers = [], media_player_audio_frame_observers = [],
     media_player_video_frame_observers = [], media_player_audio_spectrum_observers = [],
     media_recorder_observers = [], music_content_center_event_handlers = [],
     bus = [], agoraCallback = [], next_id = 0, preprocess_cleared = [] \<rparr>"

text \<open>A derived callback is bound to the listener it captured; any other function is
  bound to itself.\<close>

fun bound_to :: "busfn \<Rightarrow> listener \<Rightarrow> bool" where
  "bound_to (Derived i eventType l') l = (l' = l)"
| "bound_to (Raw f) l = (f = l)"

fun older_than :: "nat \<Rightarrow> busfn \<Rightarrow> bool" where
  "older_than n (Derived i eventType l) = (i < n)"
| "older_than n (Raw f) = True"

text \<open>What \<open>addListener\<close> and \<open>removeListener\<close> maintain: the \<open>agoraCallback\<close> stored on a
  listener captured that listener, and every closure in use was made before the next
  fresh identity.\<close>

definition facade_inv :: "engine_state \<Rightarrow> bool" where
  "facade_inv st =
     (list_all (\<lambda>x. bound_to (snd x) (fst x) \<and> older_than (next_id st) (snd x)) (agoraCallback st)
      \<and> list_all (\<lambda>s. older_than (next_id st) (snd s)) (bus st))"

subsection \<open>Worked examples\<close>

text \<open>
  The statements below hold for every codec, endpoint and interface table. The closed
  examples use a small instance: a codec that reads the three payload texts of the
  examples and rejects every other text, that cannot serialize \<open>unserializable\<close> (which
  stands for an object containing itself, \<open>const p = {}; p.self = p\<close>) and writes a fixed
  text for every other value; the endpoint of Scenario 5, which answers every call with
  return code \<open>-7\<close> and an empty result text; and an excerpt of the interface tables.
\<close>

definition unserializable :: jsval where
  "unserializable = JObj [(''self'', JStr ''[object itself]'')]"

definition example_parse :: "string \<Rightarrow> exn + jsval" where
  "example_parse text =
     (if text = ''{}'' then Inr (JObj [])
      else if text = ''null'' then Inr JNull
      else if text = ''{connection:{}}'' then Inr (JObj [(''connection'', JObj [])])
      else if text = ''{videoFrame:{}}'' then Inr (JObj [(''videoFrame'', JObj [])])
      else Inl SyntaxError)"

definition example_env :: env where
  "example_env = \<lparr>
     JSON_parse = example_parse,
     JSON_stringify = (\<lambda>v. if v = unserializable then Inl RangeError else Inr (JStr ''{}'')),
     CallApi = (\<lambda>funcName json buffers n. Inr (- 7, Some [])) \<rparr>"

definition example_checkers :: checkers where
  "example_checkers = \<lparr>
     test_IRtcEngineEventHandler =
       (\<lambda>e. e \<in> set [''onJoinChannelSuccess'', ''onLocalVideoStats'', ''onStreamMessage'']),
     test_IDirectCdnStreamingEventHandler =
       (\<lambda>e. e \<in> set [''onDirectCdnStreamingStateChanged'', ''onDirectCdnStreamingStats'']),
     test_IMetadataObserver = (\<lambda>e. e \<in> set [''onMetadataReceived'']),
     test_IAudioEncodedFrameObserver =
       (\<lambda>e. e \<in> set [''onRecordAudioEncodedFrame'', ''onPlaybackAudioEncodedFrame'',
                       ''onMixedAudioEncodedFrame'']),
     test_IAudioSpectrumObserver =
       (\<lambda>e. e \<in> set [''onLocalAudioSpectrum'', ''onRemoteAudioSpectrum'']) \<rparr>"

section \<open>Properties\<close>

subsection \<open>Inbound events\<close>

lemmas processor_defs =
  IAudioFrameObserver_def IVideoFrameObserver_def IAudioSpectrumObserver_def
  IAudioEncodedFrameObserver_def IVideoEncodedFrameObserver_def IMediaPlayerSourceObserver_def
  IAudioPcmFrameSink_def IMediaPlayerVideoFrameObserver_def IMediaRecorderObserver_def
  IMetadataObserver_def IDirectCdnStreamingEventHandler_def IRtcEngineEventHandler_def
  IMusicContentCenterEventHandler_def

lemma suffix_simps:
  "suffix IAudioFrameObserver = ''AudioFrameObserver_''"
  "suffix IVideoFrameObserver = ''VideoFrameObserver_''"
  "suffix IAudioSpectrumObserver = ''AudioSpectrumObserver_''"
  "suffix IAudioEncodedFrameObserver = ''AudioEncodedFrameObserver_''"
  "suffix IVideoEncodedFrameObserver = ''VideoEncodedFrameObserver_''"
  "suffix IMediaPlayerSourceObserver = ''MediaPlayerSourceObserver_''"
  "suffix IAudioPcmFrameSink = ''AudioPcmFrameSink_''"
  "suffix IMediaPlayerVideoFrameObserver = ''MediaPlayerVideoFrameObserver_''"
  "suffix IMediaRecorderObserver = ''MediaRecorderObserver_''"
  "suffix IMetadataObserver = ''MetadataObserver_''"
  "suffix IDirectCdnStreamingEventHandler = ''DirectCdnStreamingEventHandler_''"
  "suffix IRtcEngineEventHandler = ''RtcEngineEventHandler_''"
  "suffix IMusicContentCenterEventHandler = ''MusicContentCenterEventHandler_''"
  by (simp_all add: processor_defs)

lemma entry_simps [simp]:
  "suffix (entry st family) = suffix family"
  "type (entry st family) = type family"
  "func (entry st family) = func family"
  "handlers (entry st family) = handlers family"
  by (simp_all add: entry_def)


lemma entry_intact: "preprocess_cleared st = [] \<Longrightarrow> entry st family = family"
  by (simp add: entry_def)

lemma find_map_entry:
  "find (\<lambda>it. startsWith event (suffix it)) (map (entry st) xs)
     = map_option (entry st) (find (\<lambda>it. startsWith event (suffix it)) xs)"
  by (induction xs) simp_all

lemma find_processor_entry:
  "find_processor st event
     = map_option (entry st) (find (\<lambda>it. startsWith event (suffix it)) EVENT_PROCESSORS_literal)"
  by (simp add: find_processor_def EVENT_PROCESSORS_def find_map_entry)

lemma startsWith_iff: "startsWith s p \<longleftrightarrow> (\<exists>t. s = p @ t)"
  by (induction s p rule: startsWith.induct) auto

lemma endsWith_iff: "endsWith s p \<longleftrightarrow> (\<exists>t. s = t @ p)"
proof -
  have "endsWith s p \<longleftrightarrow> (\<exists>t. rev s = rev p @ t)"
    by (simp add: endsWith_def startsWith_iff)
  also have "\<dots> \<longleftrightarrow> (\<exists>t. s = t @ p)"
  proof
    assume "\<exists>t. rev s = rev p @ t"
    then obtain t where "rev s = rev p @ t" ..
    then have "s = rev t @ p" by (metis rev_append rev_rev_ident)
    then show "\<exists>t. s = t @ p" ..
  next
    assume "\<exists>t. s = t @ p"
    then obtain t where "s = t @ p" ..
    then have "rev s = rev p @ rev t" by simp
    then show "\<exists>t. rev s = rev p @ t" ..
  qed
  finally show ?thesis .
qed

lemma prepend_simps [simp]: "fst (prepend tr r) = fst r" "snd (prepend tr r) = tr @ snd r"
  by (simp_all add: prepend_def)










lemma find_processor_first:
  assumes "EVENT_PROCESSORS_literal = before @ p # rest"
    and "\<forall>q \<in> set before. \<not> startsWith event (suffix q)"
    and "startsWith event (suffix p)"
  shows "find_processor st event = Some (entry st p)"
proof -
  have "find (\<lambda>it. startsWith event (suffix it)) (before @ p # rest) = Some p"
    using assms(2,3) by (induction before) auto
  with assms(1) show ?thesis by (simp add: find_processor_entry)
qed

lemma find_processor_None:
  "(\<forall>q \<in> set EVENT_PROCESSORS_literal. \<not> startsWith event (suffix q))
     \<Longrightarrow> find_processor st event = None"
  unfolding find_processor_entry by (auto simp: find_None_iff)

text \<open>
Claim C2. The router takes the first descriptor of the table whose prefix starts the raw
  event name: when the table splits into descriptors that do not match, then \<open>p\<close>, which
  matches, the event is dispatched with the entry of \<open>p\<close> as it stands in the state. When
  no prefix of the table starts the raw name, \<open>handleEvent\<close> returns at once: no apply
  function has run, nothing was emitted on the bus, the only effect is the arrival log
  line of debug mode (written before the family is looked up), and \<open>handleEvent\<close> has no
  state to change.
\<close>

theorem family_first_match:
  "(EVENT_PROCESSORS_literal = before @ p # rest \<longrightarrow>
      (\<forall>q \<in> set before. \<not> startsWith event (suffix q)) \<longrightarrow>
      startsWith event (suffix p) \<longrightarrow>
      handleEvent env st event data buffers =
        prepend (onEvent_log st event data buffers)
          (dispatch st (entry st p) (normalize_event p event) (parse_payload env data) buffers))
   \<and> ((\<forall>q \<in> set EVENT_PROCESSORS_literal. \<not> startsWith event (suffix q)) \<longrightarrow>
        handleEvent env st event data buffers = (Returned (), onEvent_log st event data buffers)
        \<and> (\<forall>x \<in> set (snd (handleEvent env st event data buffers)). is_LogOnEvent x))"
proof (intro conjI impI)
  assume "EVENT_PROCESSORS_literal = before @ p # rest"
    and "\<forall>q \<in> set before. \<not> startsWith event (suffix q)"
    and "startsWith event (suffix p)"
  then have "find_processor st event = Some (entry st p)" by (rule find_processor_first)
  then show "handleEvent env st event data buffers =
        prepend (onEvent_log st event data buffers)
          (dispatch st (entry st p) (normalize_event p event) (parse_payload env data) buffers)"
    by (simp add: handleEvent_def normalize_event_def)
next
  assume none: "\<forall>q \<in> set EVENT_PROCESSORS_literal. \<not> startsWith event (suffix q)"
  then have "find_processor st event = None" by (rule find_processor_None)
  then show eq: "handleEvent env st event data buffers = (Returned (), onEvent_log st event data buffers)"
    by (simp add: handleEvent_def)
  show "\<forall>x \<in> set (snd (handleEvent env st event data buffers)). is_LogOnEvent x"
    by (simp add: eq onEvent_log_def)
qed

text \<open>
An engine event is routed to the twelfth descriptor; an unknown prefix is dropped.
\<close>

theorem family_first_match_witness:
  "handleEvent example_env (initial_state False)
      ''RtcEngineEventHandler_onJoinChannelSuccess'' ''{}'' [] =
        prepend (onEvent_log (initial_state False) ''RtcEngineEventHandler_onJoinChannelSuccess'' ''{}'' [])
          (dispatch (initial_state False) IRtcEngineEventHandler ''onJoinChannelSuccess'' (JObj []) [])
   \<and> handleEvent example_env (initial_state True) ''Unknown_onFoo'' ''{}'' [[1]]
       = (Returned (), [LogOnEvent ''Unknown_onFoo'' ''{}'' [[1]]])"
proof -
  let ?ev = "''RtcEngineEventHandler_onJoinChannelSuccess''"
  let ?before = "[IAudioFrameObserver, IVideoFrameObserver, IAudioSpectrumObserver,
      IAudioEncodedFrameObserver, IVideoEncodedFrameObserver, IMediaPlayerSourceObserver,
      IAudioPcmFrameSink, IMediaPlayerVideoFrameObserver, IMediaRecorderObserver,
      IMetadataObserver, IDirectCdnStreamingEventHandler]"
  have a: "EVENT_PROCESSORS_literal
             = ?before @ IRtcEngineEventHandler # [IMusicContentCenterEventHandler]"
    by (simp add: EVENT_PROCESSORS_literal_def)
  have b: "\<forall>q \<in> set ?before. \<not> startsWith ?ev (suffix q)"
    by (simp add: suffix_simps)
  have c: "startsWith ?ev (suffix IRtcEngineEventHandler)"
    by (simp add: suffix_simps)
  have n: "normalize_event IRtcEngineEventHandler ?ev = ''onJoinChannelSuccess''"
    by (simp add: normalize_event_def suffix_simps endsWith_def)
  have d: "parse_payload example_env ''{}'' = JObj []"
    by (simp add: parse_payload_def example_env_def example_parse_def)
  have e: "\<forall>q \<in> set EVENT_PROCESSORS_literal. \<not> startsWith ''Unknown_onFoo'' (suffix q)"
    by (simp add: EVENT_PROCESSORS_literal_def suffix_simps)
  have l: "onEvent_log (initial_state True) ''Unknown_onFoo'' ''{}'' [[1]]
             = [LogOnEvent ''Unknown_onFoo'' ''{}'' [[1]]]"
    by (simp add: onEvent_log_def isDebuggable_def initial_state_def)
  have en: "entry (initial_state False) IRtcEngineEventHandler = IRtcEngineEventHandler"
    by (rule entry_intact) (simp add: initial_state_def)
  from family_first_match [of ?before IRtcEngineEventHandler "[IMusicContentCenterEventHandler]"
         ?ev example_env "initial_state False" "''{}''" "[]"] a b c n d en
  have 1: "handleEvent example_env (initial_state False) ?ev ''{}'' [] =
        prepend (onEvent_log (initial_state False) ?ev ''{}'' [])
          (dispatch (initial_state False) IRtcEngineEventHandler ''onJoinChannelSuccess'' (JObj []) [])"
    by simp
  from family_first_match [of _ _ _ "''Unknown_onFoo''" example_env "initial_state True" "''{}''" "[[1]]"] e l
  have 2: "handleEvent example_env (initial_state True) ''Unknown_onFoo'' ''{}'' [[1]]
       = (Returned (), [LogOnEvent ''Unknown_onFoo'' ''{}'' [[1]]])"
    by simp
  from 1 2 show ?thesis by simp
qed






lemma emit_listeners_returns:
  "type p d = Inr t \<Longrightarrow>
     emit_listeners cbs p d = (Returned (), concat (map (\<lambda>cb. snd (invoke_callback cb p d)) cbs))"
proof (induction cbs)
  case Nil
  then show ?case by simp
next
  case (Cons cb cbs)
  have "fst (invoke_callback cb p d) = Returned ()"
    using Cons.prems by (cases cb) auto
  then obtain tr where "invoke_callback cb p d = (Returned (), tr)"
    by (cases "invoke_callback cb p d") auto
  with Cons show ?case by (simp add: prepend_def)
qed






subsection \<open>Outbound calls\<close>

lemma invoke_first_effect:
  assumes "JSON_stringify env params = Inr json"
  shows "\<exists>out tr. invoke env st funcName params buffers
           = (out, CallApiCalled funcName json buffers (length buffers) # tr)"
proof (cases "CallApi env funcName json buffers (length buffers)")
  case (Inl e)
  with assms show ?thesis by (simp add: invoke_def)
next
  case (Inr r)
  obtain code ret where "r = (code, ret)" by (cases r)
  with assms Inr show ?thesis by (simp add: invoke_def prepend_def)
qed

lemma callIrisApi_reaches_endpoint:
  assumes "marshal env this funcName params = Proceed params' buffers []"
    and "JSON_stringify env params' = Inr json"
  shows "\<exists>out tr. callIrisApi env st this funcName params
           = (out, CallApiCalled funcName json buffers (length buffers) # tr)"
proof -
  obtain out tr where i: "invoke env st funcName params' buffers
           = (out, CallApiCalled funcName json buffers (length buffers) # tr)"
    using invoke_first_effect [OF assms(2)] by blast
  show ?thesis
    using assms(1) i by (cases out) (simp_all add: callIrisApi_def prepend_def)
qed

lemma callIrisApi_codec_throws:
  assumes "marshal env this funcName params = Proceed params' buffers []"
    and "JSON_stringify env params' = Inl e"
  shows "outbound_buffers (snd (callIrisApi env st this funcName params)) = None"
  using assms by (simp add: callIrisApi_def invoke_def catch_block_def prepend_def)

text \<open>The slots of \<open>MediaEngine_pushVideoFrame\<close> for any frame object: \<open>frame.buffer\<close>, two
  zero-length buffers, \<open>frame.alphaBuffer\<close> as it is, one more zero-length buffer.\<close>

lemma pushVideoFrame_layout:
  assumes "get_prop params ''frame'' = Inr (JObj fs)"
  shows "marshal env this ''MediaEngine_pushVideoFrame'' params =
           Proceed params
             [case map_of fs ''buffer'' of None \<Rightarrow> JUndefined | Some b \<Rightarrow> b,
              JBuf [], JBuf [],
              case map_of fs ''alphaBuffer'' of None \<Rightarrow> JUndefined | Some a \<Rightarrow> a,
              JBuf []] []"
  using assms by (simp add: marshal_def get_prop2_def)

text \<open>
Claim C3. For \<open>MediaEngine_pushVideoFrame\<close> with a \<open>frame.buffer\<close> and no \<open>alphaBuffer\<close>, the
  dispatcher extracts exactly five ordered slots: the frame buffer, then four slots that
  carry no bytes, namely the zero-length buffers for \<open>eglContext\<close> and \<open>metadata_buffer\<close>,
  \<open>undefined\<close> for the absent \<open>alphaBuffer\<close>, and the zero-length buffer for
  \<open>d3d11_texture_2d\<close>. The extraction does not depend on the codec; the boundary endpoint
  is invoked with exactly these slots, and is invoked unless serializing the argument
  object throws.
\<close>

theorem pushVideoFrame_slots:
  assumes "get_prop params ''frame'' = Inr (JObj fs)"
    and "map_of fs ''buffer'' = Some b"
    and "map_of fs ''alphaBuffer'' = None"
  shows "marshal env this ''MediaEngine_pushVideoFrame'' params =
           Proceed params [b, JBuf [], JBuf [], JUndefined, JBuf []] []
     \<and> list_all empty_slot [JBuf [], JBuf [], JUndefined, JBuf []]
     \<and> outbound_buffers (snd (callIrisApi env st this ''MediaEngine_pushVideoFrame'' params)) =
           (case JSON_stringify env params of
              Inl e \<Rightarrow> None
            | Inr json \<Rightarrow> Some [b, JBuf [], JBuf [], JUndefined, JBuf []])"
proof -
  let ?slots = "[b, JBuf [], JBuf [], JUndefined, JBuf []]"
  have m: "marshal env this ''MediaEngine_pushVideoFrame'' params = Proceed params ?slots []"
    using pushVideoFrame_layout [OF assms(1)] assms(2,3) by simp
  have e: "list_all empty_slot [JBuf [], JBuf [], JUndefined, JBuf []]" by simp
  have o: "outbound_buffers (snd (callIrisApi env st this ''MediaEngine_pushVideoFrame'' params)) =
           (case JSON_stringify env params of Inl e \<Rightarrow> None | Inr json \<Rightarrow> Some ?slots)"
  proof (cases "JSON_stringify env params")
    case (Inl e)
    with callIrisApi_codec_throws [OF m Inl] show ?thesis by simp
  next
    case (Inr json)
    obtain out tr where "callIrisApi env st this ''MediaEngine_pushVideoFrame'' params
           = (out, CallApiCalled ''MediaEngine_pushVideoFrame'' json ?slots (length ?slots) # tr)"
      using callIrisApi_reaches_endpoint [OF m Inr] by blast
    with Inr show ?thesis by simp
  qed
  from m e o show ?thesis by blast
qed

text \<open>
A frame with three bytes and no \<open>alphaBuffer\<close>.
\<close>

theorem pushVideoFrame_slots_witness:
  "outbound_buffers (snd (callIrisApi example_env (initial_state False) ThisOther
       ''MediaEngine_pushVideoFrame'' (JObj [(''frame'', JObj [(''buffer'', JBuf [1, 2, 3])])])))
     = Some [JBuf [1, 2, 3], JBuf [], JBuf [], JUndefined, JBuf []]"
proof -
  let ?params = "JObj [(''frame'', JObj [(''buffer'', JBuf [1, 2, 3])])]"
  have f: "get_prop ?params ''frame'' = Inr (JObj [(''buffer'', JBuf [1, 2, 3])])" by simp
  have b: "map_of [(''buffer'', JBuf [1, 2, 3])] ''buffer'' = Some (JBuf [1, 2, 3])" by simp
  have a: "map_of [(''buffer'', JBuf [1, 2, 3])] ''alphaBuffer'' = None" by simp
  have s: "JSON_stringify example_env ?params = Inr (JStr ''{}'')"
    by (simp add: example_env_def unserializable_def)
  from pushVideoFrame_slots [OF f b a, of example_env ThisOther "initial_state False"]
  have "outbound_buffers (snd (callIrisApi example_env (initial_state False) ThisOther
          ''MediaEngine_pushVideoFrame'' ?params)) =
        (case JSON_stringify example_env ?params of
           Inl e \<Rightarrow> None
         | Inr json \<Rightarrow> Some [JBuf [1, 2, 3], JBuf [], JBuf [], JUndefined, JBuf []])"
    by blast
  then show ?thesis by (simp only: s sum.case)
qed

text \<open>
Claim C4 does not hold of the code: the \<open>catch\<close> block serializes the argument object
  again for its log line. When that serialization throws, whether it is what failed in
  the \<open>try\<close> block or not, the exception leaves \<open>callIrisApi\<close>, nothing is logged and no
  empty object is returned.
\<close>

theorem callIrisApi_rethrows_when_params_unserializable:
  assumes "marshal env this funcName params = Proceed params' buffers tr
           \<or> marshal env this funcName params = Failed e0 params' tr"
    and "JSON_stringify env params' = Inl e"
  shows "callIrisApi env st this funcName params = (Thrown e, tr)"
  using assms
  by (auto simp: callIrisApi_def invoke_def catch_block_def prepend_def)

text \<open>
An argument object that contains itself.
\<close>

theorem callIrisApi_rethrows_when_params_unserializable_witness:
  "callIrisApi example_env (initial_state False) ThisOther ''RtcEngine_setAppType'' unserializable
     = (Thrown RangeError, [])"
proof -
  have m: "marshal example_env ThisOther ''RtcEngine_setAppType'' unserializable
             = Proceed unserializable [] []"
    by (simp add: marshal_def)
  have s: "JSON_stringify example_env unserializable = Inl RangeError"
    by (simp add: example_env_def)
  show ?thesis
    using callIrisApi_rethrows_when_params_unserializable [OF disjI1 [OF m] s] .
qed

lemma marshal_Released_only_release:
  "marshal env this funcName params = Released tr \<Longrightarrow> funcName = ''RtcEngine_release''"
  by (auto simp: marshal_def push_one_def inject_identity_def replace_by_identity_def
           split: if_splits sum.splits)

text \<open>
Claim C5 as stated fails for \<open>RtcEngine_release\<close>: the endpoint answers with an empty
  result text and return code \<open>-7\<close>, and the call returns \<open>undefined\<close> without a log line.
\<close>

theorem empty_result_counterexample:
  "CallApi example_env ''RtcEngine_release'' (JStr ''{}'') [] 0 = Inr (- 7, Some '''')
   \<and> callIrisApi example_env (initial_state False) ThisOther ''RtcEngine_release'' (JObj [])
       = (Returned JUndefined, [CallApiCalled ''RtcEngine_release'' (JStr ''{}'') [] 0, ReleaseEnv])
   \<and> fst (callIrisApi example_env (initial_state False) ThisOther ''RtcEngine_release'' (JObj []))
       \<noteq> Returned (JObj [(''result'', JNum (- 7))])"
  by (simp add: callIrisApi_def marshal_def example_env_def unserializable_def)

text \<open>
Claim C5, amended. On the generic call path (every call that is not returned early by
  the \<open>RtcEngine_release\<close> case), when the endpoint answers with an absent or empty result
  text, the call returns \<open>{ result: returnCode }\<close> and its last effect is one log line, at
  error level in debug mode and at warning level otherwise.
\<close>

theorem empty_result_synthesized:
  assumes "marshal env this funcName params = Proceed params' buffers tr"
    and "JSON_stringify env params' = Inr json"
    and "CallApi env funcName json buffers (length buffers) = Inr (callApiReturnCode, callApiResult)"
    and "callApiResult = None \<or> callApiResult = Some ''''"
  shows "callIrisApi env st this funcName params =
           (Returned (JObj [(''result'', JNum callApiReturnCode)]),
            tr @ [CallApiCalled funcName json buffers (length buffers),
                  LogCallApi (if isDebuggable st then Error else Warn) funcName json
                    (Code callApiReturnCode)])"
  using assms
  by (auto simp: callIrisApi_def invoke_def synthesize_result_def prepend_def)

text \<open>
Scenario 5, outside and inside debug mode.
\<close>

theorem empty_result_synthesized_witness:
  "callIrisApi example_env (initial_state False) ThisOther ''RtcEngine_enableVideo'' (JObj [])
     = (Returned (JObj [(''result'', JNum (- 7))]),
        [CallApiCalled ''RtcEngine_enableVideo'' (JStr ''{}'') [] 0,
         LogCallApi Warn ''RtcEngine_enableVideo'' (JStr ''{}'') (Code (- 7))])
   \<and> callIrisApi example_env (initial_state True) ThisOther ''RtcEngine_enableVideo'' (JObj [])
     = (Returned (JObj [(''result'', JNum (- 7))]),
        [CallApiCalled ''RtcEngine_enableVideo'' (JStr ''{}'') [] 0,
         LogCallApi Error ''RtcEngine_enableVideo'' (JStr ''{}'') (Code (- 7))])"
proof -
  have m: "marshal example_env ThisOther ''RtcEngine_enableVideo'' (JObj []) = Proceed (JObj []) [] []"
    by (simp add: marshal_def)
  have s: "JSON_stringify example_env (JObj []) = Inr (JStr ''{}'')"
    by (simp add: example_env_def unserializable_def)
  have c: "CallApi example_env ''RtcEngine_enableVideo'' (JStr ''{}'') [] (length ([]::jsval list))
             = Inr (- 7, Some '''')"
    by (simp add: example_env_def)
  have r: "Some '''' = None \<or> Some '''' = Some ''''" by simp
  show ?thesis
    using empty_result_synthesized [OF m s c r, of "initial_state False"]
          empty_result_synthesized [OF m s c r, of "initial_state True"]
    by (simp add: initial_state_def isDebuggable_def)
qed

subsection \<open>Events without targets\<close>

lemma invoke_callback_cleared:
  "invoke_callback cb (p\<lparr>preprocess := None\<rparr>) d = invoke_callback cb p d"
  by (cases cb) (simp_all split: sum.splits)

lemma mem_concat_map: "c \<in> set xs \<Longrightarrow> x \<in> set (f c) \<Longrightarrow> x \<in> set (concat (map f xs))"
  by auto

lemma invoke_callback_no_observer_apply:
  "filter is_observer_apply (snd (invoke_callback cb p d)) = []"
  by (cases cb) (auto split: sum.splits simp: filter_empty_conv)

lemma emit_listeners_no_observer_apply:
  "filter is_observer_apply (snd (emit_listeners cbs p d)) = []"
proof (induction cbs)
  case Nil
  then show ?case by simp
next
  case (Cons cb cbs)
  obtain r tr where inv: "invoke_callback cb p d = (r, tr)" by (cases "invoke_callback cb p d")
  have tr: "filter is_observer_apply tr = []"
    using invoke_callback_no_observer_apply [of cb p d] inv by simp
  show ?case
  proof (cases r)
    case (Returned u)
    with inv tr Cons.IH show ?thesis by simp
  next
    case (Thrown e)
    with inv tr show ?thesis by simp
  qed
qed

lemma emitEvent_no_observer_apply:
  "filter is_observer_apply (snd (fst (emitEvent st ev p d bs))) = []"
  by (simp add: emitEvent_def emit_def emit_listeners_no_observer_apply Let_def
           split: option.splits sum.splits)

lemma emitEvent_trace:
  assumes "listeners st ev \<noteq> []"
    and "preprocessed p ev d buffers = Inr d'"
    and "type p d' = Inr t"
  shows "fst (emitEvent st ev p d (Some buffers)) =
           (Returned (),
            preprocess_effect p ev d buffers
            @ Emit ev (suffix p) d'
            # concat (map (\<lambda>cb. snd (invoke_callback cb p d')) (listeners st ev)))"
proof (cases "preprocess p")
  case None
  with assms show ?thesis
    by (simp add: emitEvent_def listenerCount_def emit_def emit_listeners_returns
          preprocessed_def preprocess_effect_def prepend_def)
next
  case (Some pre)
  from assms(3) have "type (p\<lparr>preprocess := None\<rparr>) d' = Inr t" by simp
  with assms Some show ?thesis
    by (simp add: emitEvent_def listenerCount_def emit_def emit_listeners_returns
          preprocessed_def preprocess_effect_def prepend_def invoke_callback_cleared)
qed

text \<open>
Claim C10. When a family's prefix matches and its target resolution returns
  \<open>undefined\<close>, \<open>handleEvent\<close> skips the preprocess step and the apply loop of the family
  path and is the republish \<open>emitEvent\<close> of the normalized event with the untouched
  descriptor: no apply function runs on a registered observer. If the event name has a
  bus subscriber, the preprocess function of the family, if any, runs inside the
  republish, the event is emitted, and every subscriber is called in order; a derived
  callback of a family of kind \<open>IRtcEngine\<close> runs every apply function on its listener.
\<close>

theorem no_targets_still_republished:
  assumes "find_processor st event = Some processor"
    and "handlers processor st (normalize_event processor event) (parse_payload env data) = Inr None"
  shows "handleEvent env st event data buffers =
           prepend (onEvent_log st event data buffers)
             (fst (emitEvent st (normalize_event processor event) processor
                     (parse_payload env data) (Some buffers)))
     \<and> filter is_observer_apply (snd (handleEvent env st event data buffers)) = []
     \<and> (listeners st (normalize_event processor event) \<noteq> [] \<longrightarrow>
          preprocessed processor (normalize_event processor event) (parse_payload env data) buffers
            = Inr d' \<longrightarrow>
          type processor d' = Inr t \<longrightarrow>
          snd (handleEvent env st event data buffers) =
            onEvent_log st event data buffers
            @ preprocess_effect processor (normalize_event processor event)
                (parse_payload env data) buffers
            @ Emit (normalize_event processor event) (suffix processor) d'
            # concat (map (\<lambda>cb. snd (invoke_callback cb processor d'))
                       (listeners st (normalize_event processor event))))
     \<and> (Derived i (normalize_event processor event) l
            \<in> set (listeners st (normalize_event processor event)) \<longrightarrow>
          preprocessed processor (normalize_event processor event) (parse_payload env data) buffers
            = Inr d' \<longrightarrow>
          type processor d' = Inr IRtcEngine \<longrightarrow>
          (\<forall>it \<in> set (func processor).
             Apply it (ListenerObject (normalize_event processor event) l)
               (normalize_event processor event) d'
               \<in> set (snd (handleEvent env st event data buffers))))"
proof -
  let ?ev = "normalize_event processor event"
  let ?d = "parse_payload env data"
  let ?log = "onEvent_log st event data buffers"
  have eq: "handleEvent env st event data buffers =
           prepend ?log (fst (emitEvent st ?ev processor ?d (Some buffers)))"
    using assms by (simp add: handleEvent_def dispatch_def)
  have noapp: "filter is_observer_apply (snd (handleEvent env st event data buffers)) = []"
    by (simp add: eq emitEvent_no_observer_apply onEvent_log_def)
  have tr: "snd (handleEvent env st event data buffers) =
            ?log @ preprocess_effect processor ?ev ?d buffers
            @ Emit ?ev (suffix processor) d'
            # concat (map (\<lambda>cb. snd (invoke_callback cb processor d')) (listeners st ?ev))"
    if "listeners st ?ev \<noteq> []" "preprocessed processor ?ev ?d buffers = Inr d'"
       "type processor d' = Inr t" for t
    using emitEvent_trace [OF that] by (simp add: eq)
  have inv: "Apply it (ListenerObject ?ev l) ?ev d' \<in> set (snd (handleEvent env st event data buffers))"
    if m: "Derived i ?ev l \<in> set (listeners st ?ev)"
      and p: "preprocessed processor ?ev ?d buffers = Inr d'"
      and ty: "type processor d' = Inr IRtcEngine"
      and it: "it \<in> set (func processor)" for it
  proof -
    from m have ne: "listeners st ?ev \<noteq> []" by auto
    have "Apply it (ListenerObject ?ev l) ?ev d'
            \<in> set (snd (invoke_callback (Derived i ?ev l) processor d'))"
      using ty it by simp
    with m have "Apply it (ListenerObject ?ev l) ?ev d'
            \<in> set (concat (map (\<lambda>cb. snd (invoke_callback cb processor d')) (listeners st ?ev)))"
      by (rule mem_concat_map)
    then show ?thesis by (simp add: tr [OF ne p ty])
  qed
  from eq noapp tr inv show ?thesis by blast
qed

text \<open>
\<open>onLocalVideoStats\<close> with a \<open>connection\<close> field: the registered handler 4 gets nothing,
  the listener 9 is called after the preprocess step of the republish.
\<close>

theorem no_targets_still_republished_witness:
  "handleEvent example_env
     ((initial_state False)\<lparr>event_handlers := [4],
         bus := [(''onLocalVideoStats'', Derived 0 ''onLocalVideoStats'' 9)]\<rparr>)
     ''RtcEngineEventHandler_onLocalVideoStats'' ''{connection:{}}'' [] =
   (Returned (),
    [Preprocess ''RtcEngineEventHandler_'' ''onLocalVideoStats'' (JObj [(''connection'', JObj [])]) [],
     Emit ''onLocalVideoStats'' ''RtcEngineEventHandler_'' (JObj [(''connection'', JObj [])]),
     Apply processIRtcEngineEventHandler (ListenerObject ''onLocalVideoStats'' 9)
       ''onLocalVideoStats'' (JObj [(''connection'', JObj [])])])"
proof -
  let ?st = "(initial_state False)\<lparr>event_handlers := [4],
         bus := [(''onLocalVideoStats'', Derived 0 ''onLocalVideoStats'' 9)]\<rparr>"
  let ?ev = "''RtcEngineEventHandler_onLocalVideoStats''"
  let ?d = "JObj [(''connection'', JObj [])]"
  have f: "find_processor ?st ?ev = Some IRtcEngineEventHandler"
    by (simp add: find_processor_entry EVENT_PROCESSORS_literal_def suffix_simps entry_def
          initial_state_def)
  have n: "normalize_event IRtcEngineEventHandler ?ev = ''onLocalVideoStats''"
    by (simp add: normalize_event_def suffix_simps endsWith_def)
  have d: "parse_payload example_env ''{connection:{}}'' = ?d"
    by (simp add: parse_payload_def example_env_def example_parse_def)
  have h: "handlers IRtcEngineEventHandler ?st (normalize_event IRtcEngineEventHandler ?ev)
             (parse_payload example_env ''{connection:{}}'') = Inr None"
    by (simp add: n d) (simp add: IRtcEngineEventHandler_def)
  have l: "listeners ?st ''onLocalVideoStats'' = [Derived 0 ''onLocalVideoStats'' 9]"
    by (simp add: listeners_def)
  have p: "preprocessed IRtcEngineEventHandler ''onLocalVideoStats'' ?d [] = Inr ?d"
    by (simp add: preprocessed_def IRtcEngineEventHandler_def)
  have pe: "preprocess_effect IRtcEngineEventHandler ''onLocalVideoStats'' ?d []
              = [Preprocess ''RtcEngineEventHandler_'' ''onLocalVideoStats'' ?d []]"
    by (simp add: preprocess_effect_def IRtcEngineEventHandler_def)
  have t: "type IRtcEngineEventHandler ?d = Inr IRtcEngine"
    by (simp add: IRtcEngineEventHandler_def)
  have fu: "func IRtcEngineEventHandler = [processIRtcEngineEventHandler]"
    by (simp add: IRtcEngineEventHandler_def)
  have lg: "onEvent_log ?st ?ev ''{connection:{}}'' [] = []"
    by (simp add: onEvent_log_def isDebuggable_def initial_state_def)
  have et: "fst (emitEvent ?st ''onLocalVideoStats'' IRtcEngineEventHandler ?d (Some [])) =
     (Returned (),
      [Preprocess ''RtcEngineEventHandler_'' ''onLocalVideoStats'' ?d [],
       Emit ''onLocalVideoStats'' ''RtcEngineEventHandler_'' ?d,
       Apply processIRtcEngineEventHandler (ListenerObject ''onLocalVideoStats'' 9)
         ''onLocalVideoStats'' ?d])"
    using emitEvent_trace [of ?st "''onLocalVideoStats''" IRtcEngineEventHandler ?d "[]" ?d IRtcEngine]
    by (simp add: l p pe t fu suffix_simps)
  from no_targets_still_republished [OF f h, of "[]" ?d IRtcEngine 0 9]
  have "handleEvent example_env ?st ?ev ''{connection:{}}'' [] =
          prepend (onEvent_log ?st ?ev ''{connection:{}}'' [])
            (fst (emitEvent ?st (normalize_event IRtcEngineEventHandler ?ev)
                    IRtcEngineEventHandler
                    (parse_payload example_env ''{connection:{}}'') (Some [])))"
    by (rule conjunct1)
  then have "handleEvent example_env ?st ?ev ''{connection:{}}'' [] =
          prepend [] (fst (emitEvent ?st ''onLocalVideoStats'' IRtcEngineEventHandler ?d (Some [])))"
    by (simp only: n d lg)
  then show ?thesis by (simp only: et prepend_def fst_conv snd_conv append_Nil)
qed

subsection \<open>Registries\<close>

lemma find_eq_None_iff: "find (\<lambda>value. value = ob) xs = None \<longleftrightarrow> ob \<notin> set xs"
  by (auto simp: find_None_iff)

lemma push_if_absent_member: "ob \<in> set (push_if_absent xs ob)"
  by (simp add: push_if_absent_def find_eq_None_iff)

lemma push_if_absent_idem: "push_if_absent (push_if_absent xs ob) ob = push_if_absent xs ob"
  by (simp add: push_if_absent_def find_eq_None_iff)

lemma push_if_absent_distinct: "distinct xs \<Longrightarrow> distinct (push_if_absent xs ob)"
  by (simp add: push_if_absent_def find_eq_None_iff)

lemma count_list_distinct: "distinct xs \<Longrightarrow> x \<in> set xs \<Longrightarrow> count_list xs x = 1"
  by (induction xs) (auto simp: count_list_0_iff)

lemma push_if_absent_once:
  "distinct xs \<Longrightarrow> count_list (push_if_absent xs ob) ob = Suc 0"
  using count_list_distinct [of "push_if_absent xs ob" ob]
  by (simp add: push_if_absent_distinct push_if_absent_member)

lemma registries_distinct_initial: "registries_distinct (initial_state flag)"
  by (simp add: registries_distinct_def initial_state_def)

lemma registries_distinct_register:
  assumes "registries_distinct st"
  shows "registries_distinct (fst (registerEventHandler st ob))"
    and "registries_distinct (fst (startDirectCdnStreaming st ob))"
    and "registries_distinct (fst (registerMediaMetadataObserver st ob))"
    and "registries_distinct (fst (registerAudioEncodedFrameObserver st ob))"
    and "registries_distinct (fst (registerAudioSpectrumObserver st ob))"
  using assms
  by (simp_all add: registries_distinct_def registerEventHandler_def startDirectCdnStreaming_def
        registerMediaMetadataObserver_def registerAudioEncodedFrameObserver_def
        registerAudioSpectrumObserver_def push_if_absent_distinct)

lemma registries_distinct_unregister:
  assumes "registries_distinct st"
  shows "registries_distinct (fst (unregisterEventHandler st ob))"
    and "registries_distinct (fst (unregisterMediaMetadataObserver st ob))"
    and "registries_distinct (fst (unregisterAudioEncodedFrameObserver st ob))"
    and "registries_distinct (fst (unregisterAudioSpectrumObserver st ob))"
  using assms
  by (simp_all add: registries_distinct_def unregisterEventHandler_def
        unregisterMediaMetadataObserver_def unregisterAudioEncodedFrameObserver_def
        unregisterAudioSpectrumObserver_def)

text \<open>
Claim C9. In a state whose registries hold no observer twice (the state at load time
  is one, and registration and removal keep it so), registering the same observer twice
  leaves exactly one entry equal to it, in each registry of the engine; the second call
  leaves the state as the first call made it.
\<close>

theorem registration_idempotent:
  assumes "registries_distinct st"
  shows "count_list (event_handlers
            (fst (registerEventHandler (fst (registerEventHandler st ob)) ob))) ob = 1
     \<and> count_list (metadata_observer
            (fst (registerMediaMetadataObserver (fst (registerMediaMetadataObserver st ob)) ob))) ob = 1
     \<and> count_list (audio_encoded_frame_observers
            (fst (registerAudioEncodedFrameObserver
                    (fst (registerAudioEncodedFrameObserver st ob)) ob))) ob = 1
     \<and> count_list (direct_cdn_streaming_event_handler
            (fst (startDirectCdnStreaming (fst (startDirectCdnStreaming st ob)) ob))) ob = 1
     \<and> count_list (audio_spectrum_observers
            (fst (registerAudioSpectrumObserver (fst (registerAudioSpectrumObserver st ob)) ob))) ob = 1
     \<and> fst (registerEventHandler (fst (registerEventHandler st ob)) ob)
         = fst (registerEventHandler st ob)
     \<and> fst (registerMediaMetadataObserver (fst (registerMediaMetadataObserver st ob)) ob)
         = fst (registerMediaMetadataObserver st ob)
     \<and> fst (registerAudioEncodedFrameObserver (fst (registerAudioEncodedFrameObserver st ob)) ob)
         = fst (registerAudioEncodedFrameObserver st ob)"
  using assms
  by (simp add: registries_distinct_def registerEventHandler_def startDirectCdnStreaming_def
        registerMediaMetadataObserver_def registerAudioEncodedFrameObserver_def
        registerAudioSpectrumObserver_def push_if_absent_once push_if_absent_idem)

text \<open>
Observer 3 registered twice after observers 1 and 2.
\<close>

theorem registration_idempotent_witness:
  "event_handlers (fst (registerEventHandler (fst (registerEventHandler
       ((initial_state False)\<lparr>event_handlers := [1, 2]\<rparr>) 3)) 3)) = [1, 2, 3]
   \<and> count_list (event_handlers (fst (registerEventHandler (fst (registerEventHandler
       ((initial_state False)\<lparr>event_handlers := [1, 2]\<rparr>) 3)) 3))) 3 = 1
   \<and> count_list (metadata_observer (fst (registerMediaMetadataObserver
       (fst (registerMediaMetadataObserver (initial_state False) 3)) 3))) 3 = 1"
proof -
  let ?st = "(initial_state False)\<lparr>event_handlers := [1, 2]\<rparr>"
  have d: "registries_distinct ?st"
    by (simp add: registries_distinct_def initial_state_def)
  have e: "event_handlers (fst (registerEventHandler (fst (registerEventHandler ?st 3)) 3)) = [1, 2, 3]"
    by (simp add: registerEventHandler_def push_if_absent_def initial_state_def)
  from registration_idempotent [OF d, of 3]
  have c: "count_list (event_handlers (fst (registerEventHandler (fst (registerEventHandler ?st 3)) 3))) 3 = 1"
    by (rule conjunct1)
  from registration_idempotent [OF registries_distinct_initial, of False 3]
  have m: "count_list (metadata_observer (fst (registerMediaMetadataObserver
       (fst (registerMediaMetadataObserver (initial_state False) 3)) 3))) 3 = 1"
    by blast
  from e c m show ?thesis by blast
qed

subsection \<open>Listener facade\<close>

lemma listeners_append:
  "listeners (st\<lparr>bus := bus st @ [(e, f)]\<rparr>) e' =
     (if e' = e then listeners st e' @ [f] else listeners st e')"
  by (simp add: listeners_def)

lemma filter_subscription:
  "map snd (filter (\<lambda>s. fst s = e) (filter (\<lambda>s. fst s = e \<longrightarrow> snd s \<noteq> f) xs))
     = filter (\<lambda>g. g \<noteq> f) (map snd (filter (\<lambda>s. fst s = e) xs))"
  by (induction xs) auto

lemma filter_other_event:
  "e' \<noteq> e \<Longrightarrow>
     filter (\<lambda>s. fst s = e') (filter (\<lambda>s. fst s = e \<longrightarrow> P s) xs) = filter (\<lambda>s. fst s = e') xs"
  by (induction xs) auto

lemma filter_other_event_all:
  "e' \<noteq> e \<Longrightarrow>
     filter (\<lambda>s. fst s = e') (filter (\<lambda>s. fst s \<noteq> e) xs) = filter (\<lambda>s. fst s = e') xs"
  by (induction xs) auto

lemma listeners_removeListener_all: "listeners (removeListener st e None) e = []"
  by (simp add: removeListener_def bus_removeListener_def listeners_def filter_empty_conv)

lemma listeners_removeListener_one:
  "listeners (removeListener st e (Some l)) e
     = filter (\<lambda>g. g \<noteq> agoraCallback_or_self st l) (listeners st e)"
  by (simp add: removeListener_def bus_removeListener_def listeners_def filter_subscription
        del: filter_filter)

lemma listeners_removeListener_other:
  "e' \<noteq> e \<Longrightarrow> listeners (removeListener st e lo) e' = listeners st e'"
  by (cases lo)
     (simp_all add: removeListener_def bus_removeListener_def listeners_def
        filter_other_event filter_other_event_all del: filter_filter)

lemma preCheck_keeps_bus:
  "bus (fst (snd (addListenerPreCheck chk st e))) = bus st"
  "agoraCallback (fst (snd (addListenerPreCheck chk st e))) = agoraCallback st"
  "next_id st \<le> next_id (fst (snd (addListenerPreCheck chk st e)))"
  by (simp_all add: addListenerPreCheck_def fresh_object_def registerEventHandler_def
        registerAudioSpectrumObserver_def Let_def split: prod.splits)

lemma preCheck_strict_registries:
  "direct_cdn_streaming_event_handler (fst (snd (addListenerPreCheck chk st e)))
     = direct_cdn_streaming_event_handler st"
  "metadata_observer (fst (snd (addListenerPreCheck chk st e))) = metadata_observer st"
  "audio_encoded_frame_observers (fst (snd (addListenerPreCheck chk st e)))
     = audio_encoded_frame_observers st"
  by (simp_all add: addListenerPreCheck_def fresh_object_def registerEventHandler_def
        registerAudioSpectrumObserver_def Let_def split: prod.splits)

lemma addListener_listeners:
  "listeners (fst (addListener chk st e l)) e
     = listeners st e @ [Derived (next_id (fst (snd (addListenerPreCheck chk st e)))) e l]"
proof -
  obtain ok st1 tr where pc: "addListenerPreCheck chk st e = (ok, st1, tr)"
    by (cases "addListenerPreCheck chk st e")
  have b: "bus st1 = bus st" using preCheck_keeps_bus(1) [of chk st e] pc by simp
  show ?thesis
    using pc b
    by (simp add: addListener_def fresh_object_def bus_addListener_def listeners_def Let_def)
qed

lemma addListener_effects:
  "snd (addListener chk st e l) = snd (snd (addListenerPreCheck chk st e))"
  by (simp add: addListener_def fresh_object_def Let_def split: prod.splits)

lemma preCheck_strict:
  assumes "(test_IDirectCdnStreamingEventHandler chk e \<and> direct_cdn_streaming_event_handler st = [])
           \<or> (test_IMetadataObserver chk e \<and> metadata_observer st = [])
           \<or> (test_IAudioEncodedFrameObserver chk e \<and> audio_encoded_frame_observers st = [])"
  shows "fst (addListenerPreCheck chk st e) = False
         \<and> (\<exists>msg. ConsoleError msg \<in> set (snd (snd (addListenerPreCheck chk st e))))"
  using assms
  by (auto simp: addListenerPreCheck_def fresh_object_def registerEventHandler_def
        Let_def split: prod.splits)

lemma preCheck_permissive:
  assumes "test_IRtcEngineEventHandler chk e" "event_handlers st = []"
  shows "event_handlers (fst (snd (addListenerPreCheck chk st e))) = [next_id st]"
  using assms
  by (auto simp: addListenerPreCheck_def fresh_object_def registerEventHandler_def
        registerAudioSpectrumObserver_def push_if_absent_def Let_def split: prod.splits)

lemma emit_calls_derived:
  assumes "Derived i e l \<in> set (listeners st e)"
    and "type p d = Inr IRtcEngine"
    and "it \<in> set (func p)"
  shows "fst (emit st e p d) = Returned ()"
    and "Apply it (ListenerObject e l) e d \<in> set (snd (emit st e p d))"
proof -
  have eq: "emit st e p d =
          (Returned (), Emit e (suffix p) d
             # concat (map (\<lambda>cb. snd (invoke_callback cb p d)) (listeners st e)))"
    by (simp add: emit_def emit_listeners_returns [OF assms(2)] prepend_def)
  show "fst (emit st e p d) = Returned ()" by (simp add: eq)
  have "Apply it (ListenerObject e l) e d \<in> set (snd (invoke_callback (Derived i e l) p d))"
    using assms(2,3) by simp
  with assms(1) have "Apply it (ListenerObject e l) e d
       \<in> set (concat (map (\<lambda>cb. snd (invoke_callback cb p d)) (listeners st e)))"
    by (rule mem_concat_map)
  then show "Apply it (ListenerObject e l) e d \<in> set (snd (emit st e p d))"
    by (simp add: eq)
qed

text \<open>
Claim C6 does not hold of the code. For an event name of a strict category
  (direct-CDN-streaming, metadata-observer, encoded-audio-frame) whose registry is empty,
  the pre-check prints its diagnostic and returns \<open>false\<close>, but \<open>addListener\<close> does not use the
  returned value: the derived callback is subscribed all the same, as the last subscriber
  of the name, and an emitted event of a family of kind \<open>IRtcEngine\<close> runs every apply
  function on the listener.
\<close>

theorem addListener_attaches_after_failed_precheck:
  assumes "(test_IDirectCdnStreamingEventHandler chk eventType
              \<and> direct_cdn_streaming_event_handler st = [])
           \<or> (test_IMetadataObserver chk eventType \<and> metadata_observer st = [])
           \<or> (test_IAudioEncodedFrameObserver chk eventType
                \<and> audio_encoded_frame_observers st = [])"
  shows "fst (addListenerPreCheck chk st eventType) = False
     \<and> (\<exists>msg. ConsoleError msg \<in> set (snd (addListener chk st eventType listener)))
     \<and> (\<exists>i. listeners (fst (addListener chk st eventType listener)) eventType
              = listeners st eventType @ [Derived i eventType listener])
     \<and> (type p d = Inr IRtcEngine \<longrightarrow>
          (\<forall>it \<in> set (func p).
             Apply it (ListenerObject eventType listener) eventType d
               \<in> set (snd (emit (fst (addListener chk st eventType listener)) eventType p d))))"
proof -
  let ?st' = "fst (addListener chk st eventType listener)"
  let ?i = "next_id (fst (snd (addListenerPreCheck chk st eventType)))"
  have 1: "fst (addListenerPreCheck chk st eventType) = False"
    using preCheck_strict [OF assms] by blast
  have 2: "\<exists>msg. ConsoleError msg \<in> set (snd (addListener chk st eventType listener))"
    using preCheck_strict [OF assms] by (simp add: addListener_effects)
  have 3: "listeners ?st' eventType = listeners st eventType @ [Derived ?i eventType listener]"
    by (rule addListener_listeners)
  then have m: "Derived ?i eventType listener \<in> set (listeners ?st' eventType)" by simp
  have 4: "Apply it (ListenerObject eventType listener) eventType d
             \<in> set (snd (emit ?st' eventType p d))"
    if "type p d = Inr IRtcEngine" "it \<in> set (func p)" for it
    using emit_calls_derived(2) [OF m that] .
  from 1 2 3 4 show ?thesis by blast
qed

text \<open>
\<open>addListener('onMetadataReceived', 5)\<close> with no metadata observer registered, then a
  metadata event: listener 5 is called.
\<close>

theorem addListener_attaches_after_failed_precheck_witness:
  "fst (addListenerPreCheck example_checkers (initial_state False) ''onMetadataReceived'') = False
   \<and> handleEvent example_env
        (fst (addListener example_checkers (initial_state False) ''onMetadataReceived'' 5))
        ''MetadataObserver_onMetadataReceived'' ''{}'' [[1]]
      = (Returned (),
         [Preprocess ''MetadataObserver_'' ''onMetadataReceived'' (JObj []) [[1]],
          Emit ''onMetadataReceived'' ''MetadataObserver_'' (JObj []),
          Apply processIMetadataObserver (ListenerObject ''onMetadataReceived'' 5)
            ''onMetadataReceived'' (JObj [])])"
proof -
  let ?st = "initial_state False"
  let ?st' = "fst (addListener example_checkers ?st ''onMetadataReceived'' 5)"
  have a: "(test_IDirectCdnStreamingEventHandler example_checkers ''onMetadataReceived''
              \<and> direct_cdn_streaming_event_handler ?st = [])
           \<or> (test_IMetadataObserver example_checkers ''onMetadataReceived''
                \<and> metadata_observer ?st = [])
           \<or> (test_IAudioEncodedFrameObserver example_checkers ''onMetadataReceived''
                \<and> audio_encoded_frame_observers ?st = [])"
    by (simp add: example_checkers_def initial_state_def)
  note t = addListener_attaches_after_failed_precheck [OF a, of 5 IMetadataObserver "JObj []"]
  from t have 1: "fst (addListenerPreCheck example_checkers ?st ''onMetadataReceived'') = False"
    by (rule conjunct1)
  have st': "?st' = ?st\<lparr>next_id := 1, agoraCallback := [(5, Derived 0 ''onMetadataReceived'' 5)],
                bus := [(''onMetadataReceived'', Derived 0 ''onMetadataReceived'' 5)]\<rparr>"
    by (simp add: addListener_def addListenerPreCheck_def example_checkers_def initial_state_def
          fresh_object_def bus_addListener_def Let_def)
  have 2: "handleEvent example_env ?st' ''MetadataObserver_onMetadataReceived'' ''{}'' [[1]]
      = (Returned (),
         [Preprocess ''MetadataObserver_'' ''onMetadataReceived'' (JObj []) [[1]],
          Emit ''onMetadataReceived'' ''MetadataObserver_'' (JObj []),
          Apply processIMetadataObserver (ListenerObject ''onMetadataReceived'' 5)
            ''onMetadataReceived'' (JObj [])])"
    unfolding st'
    by (simp add: handleEvent_def find_processor_entry EVENT_PROCESSORS_literal_def suffix_simps
          entry_def normalize_event_def endsWith_def parse_payload_def example_env_def
          example_parse_def onEvent_log_def isDebuggable_def initial_state_def prepend_def
          dispatch_def IMetadataObserver_def assign_nested_def apply_handlers_def emitEvent_def
          listenerCount_def listeners_def emit_def)
  from 1 2 show ?thesis by blast
qed

text \<open>Neither the facade nor the registrations assign to a table entry.\<close>

lemma preprocess_cleared_kept:
  "preprocess_cleared (fst (addListener chk st e l)) = preprocess_cleared st"
  "preprocess_cleared (removeListener st e lo) = preprocess_cleared st"
  "preprocess_cleared (removeAllListeners st eo) = preprocess_cleared st"
  "preprocess_cleared (fst (registerEventHandler st ob)) = preprocess_cleared st"
  "preprocess_cleared (fst (unregisterEventHandler st ob)) = preprocess_cleared st"
  by (simp_all add: addListener_def addListenerPreCheck_def fresh_object_def
        registerEventHandler_def registerAudioSpectrumObserver_def unregisterEventHandler_def
        bus_addListener_def removeListener_def bus_removeListener_def removeAllListeners_def
        bus_removeAllListeners_def Let_def split: prod.splits option.splits)

lemma older_than_mono: "older_than n f \<Longrightarrow> n \<le> m \<Longrightarrow> older_than m f"
  by (cases f) auto

lemma update_entries:
  "x \<in> set (AList.update k v al) \<Longrightarrow> x = (k, v) \<or> x \<in> set al"
  by (induction al) (auto split: if_splits)

lemma facade_inv_initial: "facade_inv (initial_state flag)"
  by (simp add: facade_inv_def initial_state_def)

lemma agoraCallback_or_self_bound:
  assumes "facade_inv st"
  shows "bound_to (agoraCallback_or_self st l) l"
proof (cases "map_of (agoraCallback st) l")
  case None
  then show ?thesis by (simp add: agoraCallback_or_self_def)
next
  case (Some cb)
  then have "(l, cb) \<in> set (agoraCallback st)" by (rule map_of_SomeD)
  with assms have "bound_to cb l" by (auto simp: facade_inv_def list_all_iff)
  with Some show ?thesis by (simp add: agoraCallback_or_self_def)
qed

lemma facade_inv_addListener:
  assumes "facade_inv st"
  shows "facade_inv (fst (addListener chk st e l))"
proof -
  obtain ok st1 tr where pc: "addListenerPreCheck chk st e = (ok, st1, tr)"
    by (cases "addListenerPreCheck chk st e")
  have b: "bus st1 = bus st" "agoraCallback st1 = agoraCallback st" "next_id st \<le> next_id st1"
    using preCheck_keeps_bus [where chk=chk and st=st and e=e] pc by simp_all
  let ?cb = "Derived (next_id st1) e l"
  have st': "fst (addListener chk st e l) =
          st1\<lparr>next_id := Suc (next_id st1),
              agoraCallback := AList.update l ?cb (agoraCallback st),
              bus := bus st @ [(e, ?cb)]\<rparr>"
    using pc b by (simp add: addListener_def fresh_object_def bus_addListener_def Let_def)
  have old: "older_than (Suc (next_id st1)) f" if "older_than (next_id st) f" for f
    using that b(3) by (auto intro: older_than_mono)
  have 1: "bound_to (snd x) (fst x) \<and> older_than (Suc (next_id st1)) (snd x)"
    if "x \<in> set (AList.update l ?cb (agoraCallback st))" for x
  proof -
    from update_entries [OF that] show ?thesis
    proof
      assume "x = (l, ?cb)"
      then show ?thesis by simp
    next
      assume "x \<in> set (agoraCallback st)"
      with assms show ?thesis by (auto simp: facade_inv_def list_all_iff intro: old)
    qed
  qed
  have 2: "older_than (Suc (next_id st1)) (snd s)" if "s \<in> set (bus st @ [(e, ?cb)])" for s
    using that assms by (auto simp: facade_inv_def list_all_iff intro: old)
  show ?thesis
    unfolding st' using 1 2 by (simp add: facade_inv_def list_all_iff)
qed

lemma facade_inv_removeListener:
  assumes "facade_inv st"
  shows "facade_inv (removeListener st e lo)"
  using assms
  by (cases lo) (auto simp: facade_inv_def removeListener_def bus_removeListener_def list_all_iff)

lemma addListener_then_remove:
  assumes "facade_inv st"
  shows "listeners (removeListener (fst (addListener chk st e l)) e (Some l)) e = listeners st e"
proof -
  obtain ok st1 tr where pc: "addListenerPreCheck chk st e = (ok, st1, tr)"
    by (cases "addListenerPreCheck chk st e")
  have b: "bus st1 = bus st" "agoraCallback st1 = agoraCallback st" "next_id st \<le> next_id st1"
    using preCheck_keeps_bus [where chk=chk and st=st and e=e] pc by simp_all
  let ?cb = "Derived (next_id st1) e l"
  let ?st' = "fst (addListener chk st e l)"
  have key: "agoraCallback_or_self ?st' l = ?cb"
    using pc by (simp add: addListener_def fresh_object_def bus_addListener_def Let_def
          agoraCallback_or_self_def update_conv')
  have ls: "listeners ?st' e = listeners st e @ [?cb]"
    using addListener_listeners [of chk st e l] pc by simp
  have "g \<noteq> ?cb" if "g \<in> set (listeners st e)" for g
  proof
    assume "g = ?cb"
    with that have "(e, ?cb) \<in> set (bus st)" by (auto simp: listeners_def)
    with assms have "older_than (next_id st) ?cb" by (auto simp: facade_inv_def list_all_iff)
    with b(3) show False by simp
  qed
  then have "filter (\<lambda>g. g \<noteq> ?cb) (listeners st e) = listeners st e"
    by (simp add: filter_id_conv)
  then show ?thesis by (simp add: listeners_removeListener_one key ls)
qed

text \<open>
Claim C7. \<open>removeListener(eventType)\<close> without a listener leaves no subscriber of the
  name, so a later \<open>emitEvent\<close> of the name calls nothing and leaves its descriptor alone. \<open>removeListener(eventType, cb)\<close>
  removes from the subscribers of the name those holding the \<open>agoraCallback\<close> stored on
  \<open>cb\<close>, or \<open>cb\<close> itself when it carries none, and keeps all others in order. The
  subscribers of other names are never touched. In a state built by the facade, every
  subscriber that is removed is bound to \<open>cb\<close>, and removing \<open>cb\<close> right after adding it
  restores the subscribers of the name.
\<close>

theorem removeListener_semantics:
  "listeners (removeListener st eventType None) eventType = []
   \<and> emitEvent (removeListener st eventType None) eventType p d bs = ((Returned (), []), p)
   \<and> listeners (removeListener st eventType (Some cb)) eventType
       = filter (\<lambda>g. g \<noteq> agoraCallback_or_self st cb) (listeners st eventType)
   \<and> (\<forall>e. e \<noteq> eventType \<longrightarrow> listeners (removeListener st eventType lo) e = listeners st e)
   \<and> (facade_inv st \<longrightarrow>
        (\<forall>g \<in> set (listeners st eventType).
           g \<notin> set (listeners (removeListener st eventType (Some cb)) eventType) \<longrightarrow> bound_to g cb)
        \<and> listeners (removeListener (fst (addListener chk st eventType cb)) eventType (Some cb))
             eventType = listeners st eventType)"
proof -
  have 1: "listeners (removeListener st eventType None) eventType = []"
    by (rule listeners_removeListener_all)
  then have 2: "emitEvent (removeListener st eventType None) eventType p d bs
                  = ((Returned (), []), p)"
    by (simp add: emitEvent_def listenerCount_def)
  have 3: "listeners (removeListener st eventType (Some cb)) eventType
       = filter (\<lambda>g. g \<noteq> agoraCallback_or_self st cb) (listeners st eventType)"
    by (rule listeners_removeListener_one)
  have 4: "\<forall>e. e \<noteq> eventType \<longrightarrow> listeners (removeListener st eventType lo) e = listeners st e"
    by (simp add: listeners_removeListener_other)
  have 5: "bound_to g cb"
    if "facade_inv st" "g \<in> set (listeners st eventType)"
       "g \<notin> set (listeners (removeListener st eventType (Some cb)) eventType)" for g
  proof -
    from that(2,3) have "g = agoraCallback_or_self st cb" by (simp add: 3)
    with agoraCallback_or_self_bound [OF that(1)] show ?thesis by simp
  qed
  have 6: "listeners (removeListener (fst (addListener chk st eventType cb)) eventType (Some cb))
             eventType = listeners st eventType" if "facade_inv st"
    using that by (rule addListener_then_remove)
  from 1 2 3 4 5 6 show ?thesis by blast
qed

text \<open>
Scenario 3: after \<open>removeListener('onJoinChannelSuccess')\<close> the event reaches the
  registered (default) observer only; removing listener 6 leaves listener 5 subscribed.
\<close>

theorem removeListener_semantics_witness:
  "handleEvent example_env
     (removeListener
        (fst (addListener example_checkers (initial_state False) ''onJoinChannelSuccess'' 5))
        ''onJoinChannelSuccess'' None)
     ''RtcEngineEventHandler_onJoinChannelSuccess'' ''{}'' []
     = (Returned (),
        [Preprocess ''RtcEngineEventHandler_'' ''onJoinChannelSuccess'' (JObj []) [],
         Apply processIRtcEngineEventHandler (Observer 0) ''onJoinChannelSuccess'' (JObj [])])
   \<and> listeners (removeListener
        (fst (addListener example_checkers
               (fst (addListener example_checkers (initial_state False) ''onJoinChannelSuccess'' 5))
               ''onJoinChannelSuccess'' 6))
        ''onJoinChannelSuccess'' (Some 6)) ''onJoinChannelSuccess''
     = [Derived 1 ''onJoinChannelSuccess'' 5]"
proof -
  let ?st0 = "initial_state False"
  let ?e = "''onJoinChannelSuccess''"
  let ?st1 = "fst (addListener example_checkers ?st0 ?e 5)"
  have st1: "?st1 = ?st0\<lparr>event_handlers := [0], next_id := 2,
               agoraCallback := [(5, Derived 1 ?e 5)], bus := [(?e, Derived 1 ?e 5)]\<rparr>"
    by (simp add: addListener_def addListenerPreCheck_def example_checkers_def initial_state_def
          fresh_object_def bus_addListener_def registerEventHandler_def push_if_absent_def Let_def)
  have inv: "facade_inv ?st1"
    using facade_inv_initial by (rule facade_inv_addListener)
  have l1: "listeners ?st1 ?e = [Derived 1 ?e 5]"
    unfolding st1 by (simp add: listeners_def)
  note t = removeListener_semantics [of ?st1 ?e IRtcEngineEventHandler "JObj []" "Some []" 6
             "Some 6" example_checkers]
  have eh: "event_handlers (removeListener ?st1 ?e None) = [0]"
    unfolding st1 by (simp add: removeListener_def bus_removeListener_def initial_state_def)
  have lc: "listenerCount (removeListener ?st1 ?e None) ?e = 0"
    using t by (simp add: listenerCount_def)
  have pc: "preprocess_cleared (removeListener ?st1 ?e None) = []"
    unfolding st1 by (simp add: removeListener_def bus_removeListener_def initial_state_def)
  have dbg: "\<not> isDebuggable (removeListener ?st1 ?e None)"
    unfolding st1
    by (simp add: removeListener_def bus_removeListener_def initial_state_def isDebuggable_def)
  have a: "handleEvent example_env (removeListener ?st1 ?e None)
             ''RtcEngineEventHandler_onJoinChannelSuccess'' ''{}'' []
           = (Returned (),
              [Preprocess ''RtcEngineEventHandler_'' ?e (JObj []) [],
               Apply processIRtcEngineEventHandler (Observer 0) ?e (JObj [])])"
    by (simp add: handleEvent_def find_processor_entry EVENT_PROCESSORS_literal_def suffix_simps
          entry_def pc normalize_event_def endsWith_def parse_payload_def example_env_def
          example_parse_def onEvent_log_def dbg prepend_def dispatch_def
          IRtcEngineEventHandler_def apply_handlers_def emitEvent_def lc eh)
  from t inv have "listeners (removeListener (fst (addListener example_checkers ?st1 ?e 6)) ?e (Some 6)) ?e
                     = listeners ?st1 ?e"
    by blast
  with l1 have b: "listeners (removeListener (fst (addListener example_checkers ?st1 ?e 6)) ?e (Some 6)) ?e
                     = [Derived 1 ?e 5]"
    by simp
  from a b show ?thesis by blast
qed

end
